theory Spec2Isabelle
  imports Complex_Main
begin

section \<open>The ant colony simulation of main.py\<close>

text \<open>
  The simulation is embedded function by function. Python numbers that are or become
  floats (the food storage, the building progress, the agents' positions and speed) are
  modelled as mathematical reals; the nest radius, the food coordinates and all counters
  are integers as in the source. Mutation is explicit state passing: the colony object
  that every agent refers to and the food index are threaded through the calls and
  returned updated. Every call of the random generator is an explicit argument (a draw),
  so that a theorem quantified over the draws covers every outcome of the generator.
  The only exception the simulation code can raise is the IndexError of a bucket lookup.
  The pheromone index is created empty and nothing ever adds to it, so its decay loop
  in the main loop has no iterations and is left out; drawing is left out as well.
\<close>

subsection \<open>Constants\<close>

definition WIDTH :: int where "WIDTH = 960"
definition HEIGHT :: int where "HEIGHT = 1080"

definition INITIAL_COLONY_SIZE :: nat where "INITIAL_COLONY_SIZE = 100"
definition MAX_COLONY_SIZE :: nat where "MAX_COLONY_SIZE = 500"
definition COLONY_GROWTH_RATE :: real where "COLONY_GROWTH_RATE = 0.1"
definition INITIAL_FOOD_STORAGE :: real where "INITIAL_FOOD_STORAGE = 1000"
definition FOOD_CONSUMPTION_RATE :: real where "FOOD_CONSUMPTION_RATE = 0.1"
definition CRITICAL_FOOD_LEVEL :: real where "CRITICAL_FOOD_LEVEL = 300"
definition OPTIMAL_FOOD_LEVEL :: real where "OPTIMAL_FOOD_LEVEL = 800"

definition ANTHILL_POINT :: "real \<times> real" where
  "ANTHILL_POINT = (real_of_int (WIDTH div 2), real_of_int (HEIGHT div 2))"
definition BASE_ANT_SPEED :: real where "BASE_ANT_SPEED = 1"
definition FOOD_DETECTION_RANGE_SQUARED :: real where "FOOD_DETECTION_RANGE_SQUARED = 100 ^ 2"
definition FOOD_COLLECTION_RANGE_SQUARED :: real where "FOOD_COLLECTION_RANGE_SQUARED = 10 ^ 2"
definition FOOD_SPAWN_AMOUNT_PER_CLICK :: nat where "FOOD_SPAWN_AMOUNT_PER_CLICK = 50"

definition BUILD_RANGE :: real where "BUILD_RANGE = 30"
definition BUILD_EFFICIENCY :: real where "BUILD_EFFICIENCY = 0.2"
definition MAX_NEST_SIZE :: int where "MAX_NEST_SIZE = 200"

definition sq_dist :: "real \<times> real \<Rightarrow> real \<times> real \<Rightarrow> real" where
  "sq_dist point1 point2 = (fst point1 - fst point2) ^ 2 + (snd point1 - snd point2) ^ 2"

subsection \<open>Data\<close>

datatype error = IndexError

datatype role = Builder | Scavenger

text \<open>
  A Food object: \<open>fid\<close> is the identity of the object (Python compares Food objects by
  identity), \<open>fx\<close> and \<open>fy\<close> are its fields x and y, which are never written after
  construction.
\<close>

record food =
  fid :: nat
  fx :: int
  fy :: int
  amount :: int

record colony =
  food_storage :: real
  nest_size :: int
  population :: nat
  building_progress :: real

text \<open>The fields x and y of an Ant are \<open>ax\<close> and \<open>ay\<close>; its colony is the one passed along.\<close>

record ant =
  ax :: real
  ay :: real
  speed :: real
  role :: role
  building :: bool
  has_food :: bool
  target :: "food option"

record manager =
  repository :: "food list list list"

text \<open>The outcomes of the random generator that one call of Ant.move may consume.\<close>

record draws =
  role_switch :: real
  role_pick :: real
  step_x :: nat
  step_y :: nat
  build_draw :: real

subsection \<open>Colony\<close>

definition Colony_init :: colony where
  "Colony_init = \<lparr>food_storage = INITIAL_FOOD_STORAGE, nest_size = 20,
     population = INITIAL_COLONY_SIZE, building_progress = 0\<rparr>"

definition get_ant_speed :: "colony \<Rightarrow> real" where
  "get_ant_speed c =
     (let speed_multiplier = 1 + real_of_int (nest_size c - 20) / 100
      in BASE_ANT_SPEED * speed_multiplier)"

definition Ant_init :: "real \<Rightarrow> real \<Rightarrow> colony \<Rightarrow> real \<Rightarrow> ant" where
  "Ant_init x y c role_draw =
     \<lparr>ax = x, ay = y, speed = get_ant_speed c,
      role = (if role_draw < 0.3 then Builder else Scavenger),
      building = False, has_food = False, target = None\<rparr>"

text \<open>
  Colony.update takes the agent list only for its length. \<open>growth\<close> is the draw compared
  with the growth rate and \<open>newborn\<close> the draw that decides the role of the created agent.
\<close>

definition Colony_update :: "colony \<Rightarrow> nat \<Rightarrow> real \<Rightarrow> real \<Rightarrow> colony \<times> ant option" where
  "Colony_update c len_ants growth newborn =
     (let c1 = c\<lparr>food_storage := food_storage c - real len_ants * FOOD_CONSUMPTION_RATE\<rparr>;
          c2 = c1\<lparr>food_storage := max 0 (food_storage c1)\<rparr>;
          c3 = (if building_progress c2 \<ge> 100 \<and> nest_size c2 < MAX_NEST_SIZE
                then c2\<lparr>nest_size := nest_size c2 + 1, building_progress := 0\<rparr>
                else c2)
      in if food_storage c3 > OPTIMAL_FOOD_LEVEL \<and> len_ants < MAX_COLONY_SIZE
            \<and> growth < COLONY_GROWTH_RATE
         then (c3, Some (Ant_init (fst ANTHILL_POINT) (snd ANTHILL_POINT) c3 newborn))
         else (c3, None))"

subsection \<open>Manager: the grid of buckets\<close>

text \<open>
  Python list indexing: an index from \<open>-len\<close> to \<open>-1\<close> counts from the end, anything
  outside \<open>-len .. len - 1\<close> raises IndexError.
\<close>

definition py_index :: "'a list \<Rightarrow> int \<Rightarrow> error + nat" where
  "py_index xs i =
     (let n = int (length xs)
      in if 0 \<le> i \<and> i < n then Inr (nat i)
         else if - n \<le> i \<and> i < 0 then Inr (nat (n + i))
         else Inl IndexError)"

definition Manager_init :: manager where
  "Manager_init = \<lparr>repository = replicate (nat (WIDTH div 10)) (replicate (nat (HEIGHT div 10)) [])\<rparr>"

text \<open>
  The shape Manager.__init__ gives the repository, and the food items whose tile exists
  in a repository of that shape: those that Manager.add accepts.
\<close>

definition grid_shaped :: "manager \<Rightarrow> bool" where
  "grid_shaped m \<longleftrightarrow>
     length (repository m) = nat (WIDTH div 10)
     \<and> list_all (\<lambda>row. length row = nat (HEIGHT div 10)) (repository m)"

definition has_tile :: "food \<Rightarrow> bool" where
  "has_tile f \<longleftrightarrow>
     - (WIDTH div 10) \<le> fx f div 10 \<and> fx f div 10 < WIDTH div 10
     \<and> - (HEIGHT div 10) \<le> fy f div 10 \<and> fy f div 10 < HEIGHT div 10"

definition Manager_add :: "manager \<Rightarrow> food \<Rightarrow> error + manager" where
  "Manager_add m item =
     (let grid_x = fx item div 10; grid_y = fy item div 10
      in case py_index (repository m) grid_x of
           Inl e \<Rightarrow> Inl e
         | Inr i \<Rightarrow>
            (let row = repository m ! i
             in case py_index row grid_y of
                  Inl e \<Rightarrow> Inl e
                | Inr j \<Rightarrow> Inr (m\<lparr>repository := (repository m)[i := row[j := row ! j @ [item]]]\<rparr>)))"

definition Manager_remove :: "manager \<Rightarrow> food \<Rightarrow> error + manager" where
  "Manager_remove m item =
     (let grid_x = fx item div 10; grid_y = fy item div 10
      in case py_index (repository m) grid_x of
           Inl e \<Rightarrow> Inl e
         | Inr i \<Rightarrow>
            (let row = repository m ! i
             in case py_index row grid_y of
                  Inl e \<Rightarrow> Inl e
                | Inr j \<Rightarrow>
                   (if item \<in> set (row ! j)
                    then Inr (m\<lparr>repository := (repository m)[i := row[j := remove1 item (row ! j)]]\<rparr>)
                    else Inr m)))"

text \<open>random.randint(5, 20), as a function of the generator's outcome.\<close>

definition randint :: "int \<Rightarrow> int \<Rightarrow> nat \<Rightarrow> int" where
  "randint lo hi k = lo + int (k mod nat (hi - lo + 1))"

text \<open>
  spawn_food creates \<open>n\<close> Food objects at one point. \<open>next_id\<close> is the first unused
  object identity; \<open>amounts\<close> gives the generator's outcome for each new object.
\<close>

fun spawn_food :: "manager \<Rightarrow> int \<Rightarrow> int \<Rightarrow> nat \<Rightarrow> nat \<Rightarrow> (nat \<Rightarrow> nat) \<Rightarrow> error + manager \<times> nat" where
  "spawn_food m x y 0 next_id amounts = Inr (m, next_id)"
| "spawn_food m x y (Suc n) next_id amounts =
     (case Manager_add m \<lparr>fid = next_id, fx = x, fy = y, amount = randint 5 20 (amounts next_id)\<rparr> of
        Inl e \<Rightarrow> Inl e
      | Inr m' \<Rightarrow> spawn_food m' x y n (Suc next_id) amounts)"

subsection \<open>Ant\<close>

definition pos :: "ant \<Rightarrow> real \<times> real" where
  "pos a = (ax a, ay a)"

text \<open>The Euclidean distance of an agent to the anthill.\<close>

definition dist_to_nest :: "ant \<Rightarrow> real" where
  "dist_to_nest a = sqrt (sq_dist (pos a) ANTHILL_POINT)"

definition food_pos :: "food \<Rightarrow> real \<times> real" where
  "food_pos f = (real_of_int (fx f), real_of_int (fy f))"

definition update_role :: "colony \<Rightarrow> ant \<Rightarrow> draws \<Rightarrow> ant" where
  "update_role c a d =
     (if food_storage c < CRITICAL_FOOD_LEVEL then a\<lparr>role := Scavenger\<rparr>
      else if food_storage c > OPTIMAL_FOOD_LEVEL then
        (if role_switch d < 0.1
         then a\<lparr>role := (if role_pick d < 0.3 then Builder else Scavenger)\<rparr>
         else a)
      else a)"

definition in_detection_range :: "ant \<Rightarrow> food \<Rightarrow> bool" where
  "in_detection_range a f \<longleftrightarrow> sq_dist (pos a) (food_pos f) < FOOD_DETECTION_RANGE_SQUARED"

text \<open>
  The three nested loops of find_food, each returning at the first item in range:
  over the items of a tile, over the tiles of a row, over the rows of the repository.
\<close>

fun scan_tile :: "ant \<Rightarrow> food list \<Rightarrow> food option" where
  "scan_tile a [] = None"
| "scan_tile a (f # tile) = (if in_detection_range a f then Some f else scan_tile a tile)"

fun scan_row :: "ant \<Rightarrow> food list list \<Rightarrow> food option" where
  "scan_row a [] = None"
| "scan_row a (tile # row) =
     (case scan_tile a tile of Some f \<Rightarrow> Some f | None \<Rightarrow> scan_row a row)"

fun scan_repository :: "ant \<Rightarrow> food list list list \<Rightarrow> food option" where
  "scan_repository a [] = None"
| "scan_repository a (row # rows) =
     (case scan_row a row of Some f \<Rightarrow> Some f | None \<Rightarrow> scan_repository a rows)"

definition find_food :: "ant \<Rightarrow> manager \<Rightarrow> ant" where
  "find_food a food_manager =
     (case scan_repository a (repository food_manager) of
        Some f \<Rightarrow> a\<lparr>target := Some f\<rparr>
      | None \<Rightarrow> a)"

definition move_toward :: "ant \<Rightarrow> real \<times> real \<Rightarrow> ant" where
  "move_toward a target_point =
     (let dx = fst target_point - ax a; dy = snd target_point - ay a;
          dist = sqrt (dx ^ 2 + dy ^ 2)
      in if dist \<noteq> 0
         then a\<lparr>ax := ax a + (dx / dist) * speed a, ay := ay a + (dy / dist) * speed a\<rparr>
         else a)"

definition build :: "colony \<Rightarrow> ant \<Rightarrow> colony" where
  "build c a =
     (if sq_dist (pos a) ANTHILL_POINT < BUILD_RANGE ^ 2
      then c\<lparr>building_progress := building_progress c + BUILD_EFFICIENCY\<rparr>
      else c)"

text \<open>random.choice([-1, 0, 1]), as a function of the generator's outcome.\<close>

definition choice :: "int list \<Rightarrow> nat \<Rightarrow> int" where
  "choice xs k = xs ! (k mod length xs)"

text \<open>
  Ant.move in the order of its statements. \<open>move_search\<close> is the part up to and including
  the food detection; \<open>move_step\<close> is the movement branch (return to the anthill, pursuit
  of the target, or a random step); \<open>move_build\<close> is the builders' part at the end.
\<close>

definition move_search :: "colony \<Rightarrow> manager \<Rightarrow> ant \<Rightarrow> draws \<Rightarrow> ant" where
  "move_search c food_manager a d =
     (let a1 = a\<lparr>speed := get_ant_speed c\<rparr>;
          a2 = update_role c a1 d
      in if role a2 = Scavenger \<and> \<not> has_food a2 then find_food a2 food_manager else a2)"

definition move_step :: "colony \<Rightarrow> manager \<Rightarrow> ant \<Rightarrow> draws \<Rightarrow> error + colony \<times> manager \<times> ant" where
  "move_step c food_manager a d =
     (if has_food a then
        (let a1 = move_toward a ANTHILL_POINT
         in if sq_dist (pos a1) ANTHILL_POINT < FOOD_COLLECTION_RANGE_SQUARED
            then Inr (c\<lparr>food_storage := food_storage c + 20\<rparr>, food_manager, a1\<lparr>has_food := False\<rparr>)
            else Inr (c, food_manager, a1))
      else
        (case target a of
           Some t \<Rightarrow>
             (let a1 = move_toward a (food_pos t)
              in if sq_dist (pos a1) (food_pos t) < FOOD_COLLECTION_RANGE_SQUARED
                 then (case Manager_remove food_manager t of
                         Inl e \<Rightarrow> Inl e
                       | Inr m' \<Rightarrow> Inr (c, m', a1\<lparr>has_food := True, target := None\<rparr>))
                 else Inr (c, food_manager, a1))
         | None \<Rightarrow>
             (let a1 = a\<lparr>ax := ax a + real_of_int (choice [-1, 0, 1] (step_x d)) * speed a\<rparr>;
                  a2 = a1\<lparr>ay := ay a1 + real_of_int (choice [-1, 0, 1] (step_y d)) * speed a1\<rparr>
              in Inr (c, food_manager, a2))))"

definition move_build :: "colony \<Rightarrow> ant \<Rightarrow> draws \<Rightarrow> colony \<times> ant" where
  "move_build c a d =
     (if role a = Builder \<and> \<not> has_food a then
        (if build_draw d < 0.3
         then (let a1 = a\<lparr>building := True\<rparr> in (build c a1, a1))
         else (c, a\<lparr>building := False\<rparr>))
      else (c, a\<lparr>building := False\<rparr>))"

definition move :: "colony \<Rightarrow> manager \<Rightarrow> ant \<Rightarrow> draws \<Rightarrow> error + colony \<times> manager \<times> ant" where
  "move c food_manager a d =
     (case move_step c food_manager (move_search c food_manager a d) d of
        Inl e \<Rightarrow> Inl e
      | Inr (c', m', a') \<Rightarrow>
          (let (c'', a'') = move_build c' a' d in Inr (c'', m', a'')))"

subsection \<open>The main loop\<close>

record world =
  colony :: colony
  ants :: "ant list"
  food_manager :: manager
  next_food_id :: nat

text \<open>
  What one iteration of the main loop receives from outside: the mouse clicks of the
  frame and the outcomes of the random generator (for the amounts of spawned food, for
  the growth of the colony, for the role of a created agent and for each agent's move).
\<close>

record tick_input =
  clicks :: "(int \<times> int) list"
  amount_draws :: "nat \<Rightarrow> nat"
  growth_draw :: real
  newborn_role_draw :: real
  ant_draws :: "nat \<Rightarrow> draws"

fun handle_clicks :: "manager \<Rightarrow> nat \<Rightarrow> (nat \<Rightarrow> nat) \<Rightarrow> (int \<times> int) list \<Rightarrow> error + manager \<times> nat" where
  "handle_clicks m next_id amounts [] = Inr (m, next_id)"
| "handle_clicks m next_id amounts ((x, y) # evs) =
     (case spawn_food m x y FOOD_SPAWN_AMOUNT_PER_CLICK next_id amounts of
        Inl e \<Rightarrow> Inl e
      | Inr (m', next_id') \<Rightarrow> handle_clicks m' next_id' amounts evs)"

text \<open>The loop \<open>for ant in ants: ant.move(food_manager)\<close>; \<open>i\<close> is the agent's index.\<close>

fun move_ants :: "colony \<Rightarrow> manager \<Rightarrow> ant list \<Rightarrow> (nat \<Rightarrow> draws) \<Rightarrow> nat \<Rightarrow> error + colony \<times> manager \<times> ant list" where
  "move_ants c m [] ds i = Inr (c, m, [])"
| "move_ants c m (a # as) ds i =
     (case move c m a (ds i) of
        Inl e \<Rightarrow> Inl e
      | Inr (c', m', a') \<Rightarrow>
          (case move_ants c' m' as ds (Suc i) of
             Inl e \<Rightarrow> Inl e
           | Inr (c'', m'', as') \<Rightarrow> Inr (c'', m'', a' # as')))"

definition tick :: "world \<Rightarrow> tick_input \<Rightarrow> error + world" where
  "tick w inp =
     (case handle_clicks (food_manager w) (next_food_id w) (amount_draws inp) (clicks inp) of
        Inl e \<Rightarrow> Inl e
      | Inr (m1, next_id) \<Rightarrow>
          (let (c1, new_ant) = Colony_update (colony w) (length (ants w))
                                  (growth_draw inp) (newborn_role_draw inp);
               ants1 = (case new_ant of Some a \<Rightarrow> ants w @ [a] | None \<Rightarrow> ants w)
           in case move_ants c1 m1 ants1 (ant_draws inp) 0 of
                Inl e \<Rightarrow> Inl e
              | Inr (c2, m2, ants2) \<Rightarrow>
                  Inr \<lparr>colony = c2, ants = ants2, food_manager = m2, next_food_id = next_id\<rparr>))"

text \<open>Successive iterations of the main loop, one input per iteration.\<close>

fun run :: "world \<Rightarrow> tick_input list \<Rightarrow> error + world" where
  "run w [] = Inr w"
| "run w (inp # inps) = (case tick w inp of Inl e \<Rightarrow> Inl e | Inr w' \<Rightarrow> run w' inps)"

text \<open>
  The state built by main before its loop: the colony, INITIAL_COLONY_SIZE agents at the
  anthill (\<open>role_draws\<close> decides their roles) and two piles of food.
\<close>

definition initial_world :: "(nat \<Rightarrow> real) \<Rightarrow> (nat \<Rightarrow> nat) \<Rightarrow> error + world" where
  "initial_world role_draws amounts =
     (let c = Colony_init;
          ants0 = map (\<lambda>i. Ant_init (fst ANTHILL_POINT) (snd ANTHILL_POINT) c (role_draws i))
                      [0 ..< INITIAL_COLONY_SIZE]
      in case spawn_food Manager_init 480 150 (FOOD_SPAWN_AMOUNT_PER_CLICK * 3) 0 amounts of
           Inl e \<Rightarrow> Inl e
         | Inr (m1, n1) \<Rightarrow>
            (case spawn_food m1 480 930 (FOOD_SPAWN_AMOUNT_PER_CLICK * 3) n1 amounts of
               Inl e \<Rightarrow> Inl e
             | Inr (m2, n2) \<Rightarrow>
                 Inr \<lparr>colony = c, ants = ants0, food_manager = m2, next_food_id = n2\<rparr>))"

subsection \<open>Concrete states used to exercise the theorems\<close>

text \<open>
  A colony as constructed, with two agents at the anthill (a builder and a scavenger) and
  an empty food index of the real grid size; and one frame without clicks in which the
  colony grows, nobody re-rolls its role, everybody steps to \<open>(+1, -1)\<close> and the
  builders' draw succeeds.
\<close>

definition small_world :: world where
  "small_world =
     \<lparr>colony = Colony_init,
      ants = [Ant_init 480 540 Colony_init 0.1, Ant_init 480 540 Colony_init 0.9],
      food_manager = Manager_init, next_food_id = 0\<rparr>"

definition quiet_input :: tick_input where
  "quiet_input =
     \<lparr>clicks = [], amount_draws = (\<lambda>_. 0), growth_draw = 0.05, newborn_role_draw = 0.5,
      ant_draws = (\<lambda>_. \<lparr>role_switch = 0.5, role_pick = 0.5, step_x = 2, step_y = 0, build_draw = 0.1\<rparr>)\<rparr>"

definition small_world_next :: world where
  "small_world_next =
     \<lparr>colony = \<lparr>food_storage = 999.8, nest_size = 20, population = 100, building_progress = 0.2\<rparr>,
      ants = [\<lparr>ax = 481, ay = 539, speed = 1, role = Builder, building = True, has_food = False, target = None\<rparr>,
              \<lparr>ax = 481, ay = 539, speed = 1, role = Scavenger, building = False, has_food = False, target = None\<rparr>,
              \<lparr>ax = 481, ay = 539, speed = 1, role = Scavenger, building = False, has_food = False, target = None\<rparr>],
      food_manager = Manager_init, next_food_id = 0\<rparr>"

text \<open>
  The repository of the real size (96 rows of 108 tiles) in which every tile is empty
  except the tile \<open>j\<close> of row \<open>i\<close>, which holds \<open>bucket\<close>.
\<close>

definition bucket_grid :: "nat \<Rightarrow> nat \<Rightarrow> food list \<Rightarrow> food list list list" where
  "bucket_grid i j bucket =
     replicate i (replicate 108 [])
     @ [replicate j [] @ [bucket] @ replicate (107 - j) []]
     @ replicate (95 - i) (replicate 108 [])"

definition still_draws :: draws where
  "still_draws = \<lparr>role_switch = 0.5, role_pick = 0.5, step_x = 2, step_y = 0, build_draw = 0.1\<rparr>"

text \<open>A frame like \<open>quiet_input\<close> in which the colony does not grow.\<close>

definition calm_input :: tick_input where
  "calm_input =
     \<lparr>clicks = [], amount_draws = (\<lambda>_. 0), growth_draw = 0.5, newborn_role_draw = 0.5,
      ant_draws = (\<lambda>_. still_draws)\<rparr>"

text \<open>An agent carrying food at distance 50 from the anthill.\<close>

definition carrier :: ant where
  "carrier = \<lparr>ax = 510, ay = 580, speed = 1, role = Scavenger, building = False,
              has_food = True, target = None\<rparr>"

definition carry_world :: world where
  "carry_world = \<lparr>colony = Colony_init, ants = [carrier], food_manager = Manager_init, next_food_id = 0\<rparr>"

definition carry_world_next :: world where
  "carry_world_next =
     \<lparr>colony = \<lparr>food_storage = 999.9, nest_size = 20, population = 100, building_progress = 0\<rparr>,
      ants = [\<lparr>ax = 509.4, ay = 579.2, speed = 1, role = Scavenger, building = False, has_food = True, target = None\<rparr>,
              \<lparr>ax = 481, ay = 539, speed = 1, role = Scavenger, building = False, has_food = False, target = None\<rparr>],
      food_manager = Manager_init, next_food_id = 0\<rparr>"

text \<open>
  Three food items in one tile, in this order, and a scavenger at \<open>(580, 540)\<close>: the first
  item is at distance exactly 100, the second at squared distance 8900, the third at
  squared distance 8281.
\<close>

definition boundary_food :: food where "boundary_food = \<lparr>fid = 0, fx = 480, fy = 540, amount = 5\<rparr>"
definition first_food :: food where "first_food = \<lparr>fid = 1, fx = 486, fy = 548, amount = 5\<rparr>"
definition nearest_food :: food where "nearest_food = \<lparr>fid = 2, fx = 489, fy = 540, amount = 5\<rparr>"

definition searcher :: ant where
  "searcher = \<lparr>ax = 580, ay = 540, speed = 1, role = Scavenger, building = False,
               has_food = False, target = None\<rparr>"

definition pile_index :: manager where
  "pile_index = \<lparr>repository = bucket_grid 48 54 [boundary_food, first_food, nearest_food]\<rparr>"

definition boundary_index :: manager where
  "boundary_index = \<lparr>repository = bucket_grid 48 54 [boundary_food]\<rparr>"

text \<open>
  A hungry colony (storage 295) with two agents: one carries food, the other is a builder
  at the anthill. In \<open>hungry_world\<close> the carrier is five units from the anthill and its
  deposit lifts the storage over the critical level before the builder is updated; in
  \<open>far_world\<close> the carrier is fifty units away and deposits nothing in the frame.
\<close>

definition near_carrier :: ant where
  "near_carrier = \<lparr>ax = 480, ay = 545, speed = 1, role = Scavenger, building = False,
                   has_food = True, target = None\<rparr>"

definition builder_at_nest :: ant where
  "builder_at_nest = \<lparr>ax = 480, ay = 540, speed = 1, role = Builder, building = False,
                      has_food = False, target = None\<rparr>"

definition hungry_world :: world where
  "hungry_world =
     \<lparr>colony = Colony_init\<lparr>food_storage := 295\<rparr>, ants = [near_carrier, builder_at_nest],
      food_manager = Manager_init, next_food_id = 0\<rparr>"

definition hungry_world_next :: world where
  "hungry_world_next =
     \<lparr>colony = \<lparr>food_storage = 314.8, nest_size = 20, population = 100, building_progress = 0.2\<rparr>,
      ants = [\<lparr>ax = 480, ay = 544, speed = 1, role = Scavenger, building = False, has_food = False, target = None\<rparr>,
              \<lparr>ax = 481, ay = 539, speed = 1, role = Builder, building = True, has_food = False, target = None\<rparr>],
      food_manager = Manager_init, next_food_id = 0\<rparr>"

definition far_world :: world where
  "far_world =
     \<lparr>colony = Colony_init\<lparr>food_storage := 295\<rparr>, ants = [carrier, builder_at_nest],
      food_manager = Manager_init, next_food_id = 0\<rparr>"

definition far_world_next :: world where
  "far_world_next =
     \<lparr>colony = \<lparr>food_storage = 294.8, nest_size = 20, population = 100, building_progress = 0\<rparr>,
      ants = [\<lparr>ax = 509.4, ay = 579.2, speed = 1, role = Scavenger, building = False, has_food = True, target = None\<rparr>,
              \<lparr>ax = 481, ay = 539, speed = 1, role = Scavenger, building = False, has_food = False, target = None\<rparr>],
      food_manager = Manager_init, next_food_id = 0\<rparr>"

text \<open>
  One food item left in the whole index, ten units from two scavengers that both stored
  it as their target in an earlier frame; then the state after one frame, and after two.
\<close>

definition last_food :: food where "last_food = \<lparr>fid = 7, fx = 480, fy = 545, amount = 12\<rparr>"

definition twin :: ant where
  "twin = \<lparr>ax = 480, ay = 535, speed = 1, role = Scavenger, building = False,
           has_food = False, target = Some last_food\<rparr>"

definition twin_world :: world where
  "twin_world =
     \<lparr>colony = Colony_init, ants = [twin, twin],
      food_manager = \<lparr>repository = bucket_grid 48 54 [last_food]\<rparr>, next_food_id = 8\<rparr>"

definition twin_world_harvested :: world where
  "twin_world_harvested =
     \<lparr>colony = \<lparr>food_storage = 999.8, nest_size = 20, population = 100, building_progress = 0\<rparr>,
      ants = [\<lparr>ax = 480, ay = 536, speed = 1, role = Scavenger, building = False, has_food = True, target = None\<rparr>,
              \<lparr>ax = 480, ay = 536, speed = 1, role = Scavenger, building = False, has_food = True, target = None\<rparr>],
      food_manager = \<lparr>repository = bucket_grid 48 54 []\<rparr>, next_food_id = 8\<rparr>"

definition twin_world_credited :: world where
  "twin_world_credited =
     \<lparr>colony = \<lparr>food_storage = 1039.6, nest_size = 20, population = 100, building_progress = 0\<rparr>,
      ants = [\<lparr>ax = 480, ay = 537, speed = 1, role = Scavenger, building = False, has_food = False, target = None\<rparr>,
              \<lparr>ax = 480, ay = 537, speed = 1, role = Scavenger, building = False, has_food = False, target = None\<rparr>],
      food_manager = \<lparr>repository = bucket_grid 48 54 []\<rparr>, next_food_id = 8\<rparr>"

section \<open>Properties\<close>

lemmas params =
  WIDTH_def HEIGHT_def INITIAL_COLONY_SIZE_def MAX_COLONY_SIZE_def COLONY_GROWTH_RATE_def
  INITIAL_FOOD_STORAGE_def FOOD_CONSUMPTION_RATE_def CRITICAL_FOOD_LEVEL_def
  OPTIMAL_FOOD_LEVEL_def ANTHILL_POINT_def BASE_ANT_SPEED_def
  FOOD_DETECTION_RANGE_SQUARED_def FOOD_COLLECTION_RANGE_SQUARED_def
  FOOD_SPAWN_AMOUNT_PER_CLICK_def BUILD_RANGE_def BUILD_EFFICIENCY_def MAX_NEST_SIZE_def

subsection \<open>What each operation changes in the colony\<close>

lemma Colony_update_fields:
  "Colony_update c n g r = (c', na) \<Longrightarrow>
     population c' = population c \<and> 0 \<le> food_storage c' \<and> food_storage c' \<le> max 0 (food_storage c)
     \<and> nest_size c' = (if building_progress c \<ge> 100 \<and> nest_size c < MAX_NEST_SIZE then nest_size c + 1 else nest_size c)
     \<and> building_progress c' = (if building_progress c \<ge> 100 \<and> nest_size c < MAX_NEST_SIZE then 0 else building_progress c)"
  by (auto simp: Colony_update_def Let_def FOOD_CONSUMPTION_RATE_def split: if_splits)

lemma Colony_update_food_storage:
  "food_storage (fst (Colony_update c n g r)) = max 0 (food_storage c - real n * FOOD_CONSUMPTION_RATE)"
  by (simp add: Colony_update_def Let_def)

lemma Colony_update_new:
  "Colony_update c n g r = (c', Some a) \<Longrightarrow> n < MAX_COLONY_SIZE \<and> food_storage c' > OPTIMAL_FOOD_LEVEL"
  by (auto simp: Colony_update_def Let_def split: if_splits)

lemma Colony_update_ignores_population:
  "Colony_update (c\<lparr>population := p\<rparr>) n g r =
     (fst (Colony_update c n g r)\<lparr>population := p\<rparr>, snd (Colony_update c n g r))"
  by (simp add: Colony_update_def Let_def Ant_init_def get_ant_speed_def)

lemma build_frame:
  "food_storage (build c a) = food_storage c \<and> nest_size (build c a) = nest_size c
   \<and> population (build c a) = population c"
  by (simp add: build_def)

lemma move_build_frame:
  "move_build c a d = (c', a') \<Longrightarrow>
     food_storage c' = food_storage c \<and> nest_size c' = nest_size c \<and> population c' = population c"
  by (auto simp: move_build_def Let_def build_frame split: if_splits)

lemma move_step_frame:
  "move_step c m a d = Inr (c', m', a') \<Longrightarrow>
     food_storage c \<le> food_storage c' \<and> nest_size c' = nest_size c \<and> population c' = population c"
  by (auto simp: move_step_def Let_def split: if_splits option.splits sum.splits)

lemma move_frame:
  "move c m a d = Inr (c', m', a') \<Longrightarrow>
     food_storage c \<le> food_storage c' \<and> nest_size c' = nest_size c \<and> population c' = population c"
  unfolding move_def
  by (auto split: sum.splits prod.splits dest!: move_step_frame move_build_frame)

lemma move_ants_frame:
  "move_ants c m as ds i = Inr (c', m', as') \<Longrightarrow>
     food_storage c \<le> food_storage c' \<and> nest_size c' = nest_size c \<and> population c' = population c
     \<and> length as' = length as"
proof (induction as arbitrary: c m i c' m' as')
  case Nil
  then show ?case by simp
next
  case (Cons a as)
  from Cons.prems obtain c1 m1 a1 c2 m2 as2 where
    mv: "move c m a (ds i) = Inr (c1, m1, a1)" and
    rest: "move_ants c1 m1 as ds (Suc i) = Inr (c2, m2, as2)" and
    eq: "c' = c2" "m' = m2" "as' = a1 # as2"
    by (auto split: sum.splits prod.splits)
  from move_frame[OF mv] Cons.IH[OF rest] eq show ?case by simp
qed

subsection \<open>One iteration of the main loop\<close>

lemma tick_Inr_cases:
  assumes "tick w inp = Inr w'"
  obtains m1 nid c1 na c2 m2 as2 where
    "handle_clicks (food_manager w) (next_food_id w) (amount_draws inp) (clicks inp) = Inr (m1, nid)"
    "Colony_update (colony w) (length (ants w)) (growth_draw inp) (newborn_role_draw inp) = (c1, na)"
    "move_ants c1 m1 (case na of Some a \<Rightarrow> ants w @ [a] | None \<Rightarrow> ants w) (ant_draws inp) 0 = Inr (c2, m2, as2)"
    "w' = \<lparr>colony = c2, ants = as2, food_manager = m2, next_food_id = nid\<rparr>"
  using assms unfolding tick_def
  by (auto split: sum.splits prod.splits simp: Let_def)

lemma tick_food_storage: "tick w inp = Inr w' \<Longrightarrow> 0 \<le> food_storage (colony w')"
proof (erule tick_Inr_cases)
  fix m1 nid c1 na c2 m2 as2
  assume cu: "Colony_update (colony w) (length (ants w)) (growth_draw inp) (newborn_role_draw inp) = (c1, na)"
    and mv: "move_ants c1 m1 (case na of Some a \<Rightarrow> ants w @ [a] | None \<Rightarrow> ants w) (ant_draws inp) 0 = Inr (c2, m2, as2)"
    and w': "w' = \<lparr>colony = c2, ants = as2, food_manager = m2, next_food_id = nid\<rparr>"
  from Colony_update_fields[OF cu] move_ants_frame[OF mv] w'
  show ?thesis by simp
qed

lemma tick_nest_size:
  "tick w inp = Inr w' \<Longrightarrow>
     nest_size (colony w') =
       (if building_progress (colony w) \<ge> 100 \<and> nest_size (colony w) < MAX_NEST_SIZE
        then nest_size (colony w) + 1 else nest_size (colony w))"
proof (erule tick_Inr_cases)
  fix m1 nid c1 na c2 m2 as2
  assume cu: "Colony_update (colony w) (length (ants w)) (growth_draw inp) (newborn_role_draw inp) = (c1, na)"
    and mv: "move_ants c1 m1 (case na of Some a \<Rightarrow> ants w @ [a] | None \<Rightarrow> ants w) (ant_draws inp) 0 = Inr (c2, m2, as2)"
    and w': "w' = \<lparr>colony = c2, ants = as2, food_manager = m2, next_food_id = nid\<rparr>"
  from Colony_update_fields[OF cu] move_ants_frame[OF mv] w'
  show ?thesis by simp
qed

lemma tick_population: "tick w inp = Inr w' \<Longrightarrow> population (colony w') = population (colony w)"
proof (erule tick_Inr_cases)
  fix m1 nid c1 na c2 m2 as2
  assume cu: "Colony_update (colony w) (length (ants w)) (growth_draw inp) (newborn_role_draw inp) = (c1, na)"
    and mv: "move_ants c1 m1 (case na of Some a \<Rightarrow> ants w @ [a] | None \<Rightarrow> ants w) (ant_draws inp) 0 = Inr (c2, m2, as2)"
    and w': "w' = \<lparr>colony = c2, ants = as2, food_manager = m2, next_food_id = nid\<rparr>"
  from Colony_update_fields[OF cu] move_ants_frame[OF mv] w'
  show ?thesis by simp
qed

lemma tick_length_ants:
  "tick w inp = Inr w' \<Longrightarrow>
     (length (ants w') = length (ants w) \<or>
      length (ants w') = Suc (length (ants w)) \<and> length (ants w) < MAX_COLONY_SIZE)"
proof (erule tick_Inr_cases)
  fix m1 nid c1 na c2 m2 as2
  assume cu: "Colony_update (colony w) (length (ants w)) (growth_draw inp) (newborn_role_draw inp) = (c1, na)"
    and mv: "move_ants c1 m1 (case na of Some a \<Rightarrow> ants w @ [a] | None \<Rightarrow> ants w) (ant_draws inp) 0 = Inr (c2, m2, as2)"
    and w': "w' = \<lparr>colony = c2, ants = as2, food_manager = m2, next_food_id = nid\<rparr>"
  show ?thesis
  proof (cases na)
    case None
    with move_ants_frame[OF mv] w' show ?thesis by simp
  next
    case (Some a)
    with Colony_update_new[of "colony w" "length (ants w)" _ _ c1 a] cu
    have "length (ants w) < MAX_COLONY_SIZE" by simp
    with Some move_ants_frame[OF mv] w' show ?thesis by simp
  qed
qed

lemma run_snoc:
  "run w (inps @ [inp]) = (case run w inps of Inl e \<Rightarrow> Inl e | Inr w1 \<Rightarrow> tick w1 inp)"
  by (induction inps arbitrary: w) (auto split: sum.splits)

lemma initial_world_start:
  "initial_world role_draws amounts = Inr w \<Longrightarrow>
     colony w = Colony_init \<and> length (ants w) = INITIAL_COLONY_SIZE"
  by (auto simp: initial_world_def Let_def split: sum.splits)

subsection \<open>Evaluating the concrete states\<close>

lemma scan_row_empty: "scan_row a (replicate n []) = None"
  by (induction n) simp_all

lemma scan_repository_empty: "scan_repository a (replicate k (replicate n [])) = None"
  by (induction k) (simp_all add: scan_row_empty)

lemma find_food_Manager_init: "find_food a Manager_init = a"
  by (simp add: find_food_def Manager_init_def scan_repository_empty)

lemma small_world_tick: "tick small_world quiet_input = Inr small_world_next"
  by (simp add: tick_def small_world_def quiet_input_def small_world_next_def Colony_update_def
      Colony_init_def Ant_init_def get_ant_speed_def move_def move_search_def move_step_def
      move_build_def update_role_def find_food_Manager_init build_def choice_def sq_dist_def
      pos_def params Let_def)

lemma small_world_run: "run small_world [quiet_input] = Inr small_world_next"
  by (simp add: small_world_tick)

subsection \<open>Food storage\<close>

text \<open>
  C4. After every iteration of the main loop, whatever the state it started in, whatever
  the clicks and the random draws, the food storage is at least 0: Colony.update subtracts
  the consumption and floors the result at 0 (lemma \<open>Colony_update_food_storage\<close>), and an
  agent's move leaves the storage as it is or adds the deposit of 20 to it (lemma
  \<open>move_frame\<close>). Stated for the last iteration of any non-empty sequence of iterations.
\<close>

theorem food_storage_never_negative:
  assumes "run w inps = Inr w'" and "inps \<noteq> []"
  shows "0 \<le> food_storage (colony w')"
proof -
  from assms(2) obtain inps0 inp where "inps = inps0 @ [inp]"
    by (cases inps rule: rev_cases) auto
  with assms(1) obtain w1 where "tick w1 inp = Inr w'"
    by (auto simp: run_snoc split: sum.splits)
  then show ?thesis by (rule tick_food_storage)
qed

theorem food_storage_never_negative_witness:
  "run small_world [quiet_input] = Inr small_world_next \<and> [quiet_input] \<noteq> []
   \<and> 0 \<le> food_storage (colony small_world_next)"
proof -
  have r: "run small_world [quiet_input] = Inr small_world_next"
    by (rule small_world_run)
  have n: "[quiet_input] \<noteq> []" by simp
  from r n food_storage_never_negative[OF r n] show ?thesis by simp
qed

subsection \<open>Nest size\<close>

text \<open>
  C5. Over any sequence of iterations of the main loop, the nest size never decreases,
  and it never exceeds MAX_NEST_SIZE if it did not at the start (the colony is constructed
  with nest size 20).
\<close>

theorem nest_size_monotone_bounded:
  assumes "run w inps = Inr w'" and "nest_size (colony w) \<le> MAX_NEST_SIZE"
  shows "nest_size (colony w) \<le> nest_size (colony w') \<and> nest_size (colony w') \<le> MAX_NEST_SIZE"
  using assms
proof (induction inps arbitrary: w)
  case Nil
  then show ?case by simp
next
  case (Cons inp inps)
  from Cons.prems(1) obtain w1 where t: "tick w inp = Inr w1" and r: "run w1 inps = Inr w'"
    by (auto split: sum.splits)
  from tick_nest_size[OF t] Cons.prems(2)
  have s: "nest_size (colony w) \<le> nest_size (colony w1) \<and> nest_size (colony w1) \<le> MAX_NEST_SIZE"
    by (simp split: if_splits)
  with Cons.IH[OF r] show ?case by simp
qed

theorem nest_size_monotone_bounded_witness:
  "run small_world [quiet_input] = Inr small_world_next
   \<and> nest_size (colony small_world) \<le> MAX_NEST_SIZE
   \<and> nest_size (colony small_world) \<le> nest_size (colony small_world_next)
   \<and> nest_size (colony small_world_next) \<le> MAX_NEST_SIZE"
proof -
  have r: "run small_world [quiet_input] = Inr small_world_next"
    by (rule small_world_run)
  have n: "nest_size (colony small_world) \<le> MAX_NEST_SIZE"
    by (simp add: small_world_def Colony_init_def MAX_NEST_SIZE_def)
  from r n nest_size_monotone_bounded[OF r n] show ?thesis by simp
qed

text \<open>
  C7. A colony update that finds the building progress at 100 or more and the nest size
  below MAX_NEST_SIZE adds exactly 1 to the nest size and sets the building progress to
  exactly 0, whatever the excess over 100 was.
\<close>

theorem building_increment:
  assumes "building_progress c \<ge> 100" and "nest_size c < MAX_NEST_SIZE"
  shows "nest_size (fst (Colony_update c n g r)) = nest_size c + 1
         \<and> building_progress (fst (Colony_update c n g r)) = 0"
  using assms Colony_update_fields[of c n g r "fst (Colony_update c n g r)" "snd (Colony_update c n g r)"]
  by simp

text \<open>
  The scenario of the specification: progress 99.9, one builder in range adds
  BUILD_EFFICIENCY, and the next colony update leaves progress 0 and nest size 21.
\<close>

theorem building_increment_witness:
  "building_progress (build (Colony_init\<lparr>building_progress := 99.9\<rparr>) (Ant_init 480 540 Colony_init 0.1)) \<ge> 100
   \<and> nest_size (build (Colony_init\<lparr>building_progress := 99.9\<rparr>) (Ant_init 480 540 Colony_init 0.1)) < MAX_NEST_SIZE
   \<and> nest_size (fst (Colony_update
        (build (Colony_init\<lparr>building_progress := 99.9\<rparr>) (Ant_init 480 540 Colony_init 0.1)) 1 0.5 0.5)) = 21
   \<and> building_progress (fst (Colony_update
        (build (Colony_init\<lparr>building_progress := 99.9\<rparr>) (Ant_init 480 540 Colony_init 0.1)) 1 0.5 0.5)) = 0"
proof -
  let ?c = "build (Colony_init\<lparr>building_progress := 99.9\<rparr>) (Ant_init 480 540 Colony_init 0.1)"
  have p: "building_progress ?c \<ge> 100"
    by (simp add: build_def Colony_init_def Ant_init_def pos_def sq_dist_def params)
  have n: "nest_size ?c < MAX_NEST_SIZE"
    by (simp add: build_def Colony_init_def MAX_NEST_SIZE_def)
  have s: "nest_size ?c = 20"
    by (simp add: build_def Colony_init_def)
  from p n s building_increment[OF p n, of 1 "0.5" "0.5"] show ?thesis by simp
qed

subsection \<open>Population\<close>

text \<open>
  C6. Over any sequence of iterations of the main loop that starts with at most
  MAX_COLONY_SIZE agents (main starts with INITIAL_COLONY_SIZE), the number of agents
  never decreases, never exceeds MAX_COLONY_SIZE, and grows by at most one per iteration.
\<close>

theorem population_bound:
  assumes "run w inps = Inr w'" and "length (ants w) \<le> MAX_COLONY_SIZE"
  shows "length (ants w) \<le> length (ants w') \<and> length (ants w') \<le> MAX_COLONY_SIZE
         \<and> length (ants w') \<le> length (ants w) + length inps"
  using assms
proof (induction inps arbitrary: w)
  case Nil
  then show ?case by simp
next
  case (Cons inp inps)
  from Cons.prems(1) obtain w1 where t: "tick w inp = Inr w1" and r: "run w1 inps = Inr w'"
    by (auto split: sum.splits)
  from tick_length_ants[OF t] Cons.prems(2)
  have s: "length (ants w) \<le> length (ants w1) \<and> length (ants w1) \<le> MAX_COLONY_SIZE
           \<and> length (ants w1) \<le> Suc (length (ants w))"
    by auto
  with Cons.IH[OF r] show ?case by simp
qed

theorem population_bound_witness:
  "run small_world [quiet_input] = Inr small_world_next
   \<and> length (ants small_world) \<le> MAX_COLONY_SIZE
   \<and> length (ants small_world) \<le> length (ants small_world_next)
   \<and> length (ants small_world_next) \<le> MAX_COLONY_SIZE
   \<and> length (ants small_world_next) \<le> length (ants small_world) + length [quiet_input]"
proof -
  have r: "run small_world [quiet_input] = Inr small_world_next"
    by (rule small_world_run)
  have n: "length (ants small_world) \<le> MAX_COLONY_SIZE"
    by (simp add: small_world_def MAX_COLONY_SIZE_def)
  from r n population_bound[OF r n] show ?thesis by simp
qed

text \<open>
  C10. The field population gets INITIAL_COLONY_SIZE at construction; Colony.update and
  every iteration of the main loop leave it as it is; and its value has no influence on
  what Colony.update computes, which reads the number of agents from its argument.
\<close>

theorem population_field_written_once:
  assumes "run w inps = Inr w'"
  shows "population (colony w') = population (colony w)
         \<and> population Colony_init = INITIAL_COLONY_SIZE
         \<and> population (fst (Colony_update c n g r)) = population c
         \<and> Colony_update (c\<lparr>population := p\<rparr>) n g r =
             (fst (Colony_update c n g r)\<lparr>population := p\<rparr>, snd (Colony_update c n g r))"
proof -
  from assms have "population (colony w') = population (colony w)"
  proof (induction inps arbitrary: w)
    case Nil
    then show ?case by simp
  next
    case (Cons inp inps)
    from Cons.prems obtain w1 where t: "tick w inp = Inr w1" and r: "run w1 inps = Inr w'"
      by (auto split: sum.splits)
    from tick_population[OF t] Cons.IH[OF r] show ?case by simp
  qed
  moreover have "population Colony_init = INITIAL_COLONY_SIZE"
    by (simp add: Colony_init_def)
  moreover have "population (fst (Colony_update c n g r)) = population c"
    using Colony_update_fields[of c n g r "fst (Colony_update c n g r)" "snd (Colony_update c n g r)"]
    by simp
  ultimately show ?thesis
    using Colony_update_ignores_population by simp
qed

text \<open>In the concrete frame the colony grows from two to three agents; the field stays 100.\<close>

theorem population_field_written_once_witness:
  "run small_world [quiet_input] = Inr small_world_next
   \<and> length (ants small_world) = 2 \<and> length (ants small_world_next) = 3
   \<and> population (colony small_world) = 100
   \<and> population (colony small_world_next) = 100"
proof -
  have r: "run small_world [quiet_input] = Inr small_world_next"
    by (rule small_world_run)
  have "population (colony small_world) = 100"
    by (simp add: small_world_def Colony_init_def INITIAL_COLONY_SIZE_def)
  with r population_field_written_once[OF r] show ?thesis
    by (simp add: small_world_def small_world_next_def)
qed

subsection \<open>Returning to the anthill\<close>

lemma move_toward_sq_dist:
  assumes "sq_dist (pos a) q \<noteq> 0"
  shows "sq_dist (pos (move_toward a q)) q = (sqrt (sq_dist (pos a) q) - speed a) ^ 2"
proof -
  define dx where "dx = fst q - ax a"
  define dy where "dy = snd q - ay a"
  define d where "d = sqrt (dx ^ 2 + dy ^ 2)"
  define s where "s = speed a"
  have D: "sq_dist (pos a) q = dx ^ 2 + dy ^ 2"
    by (simp add: sq_dist_def pos_def dx_def dy_def power2_commute)
  with assms have "dx ^ 2 + dy ^ 2 \<noteq> 0" by simp
  moreover have "0 \<le> dx ^ 2 + dy ^ 2" by simp
  ultimately have pos: "0 < dx ^ 2 + dy ^ 2" by linarith
  then have d0: "0 < d" by (simp add: d_def)
  have d2: "d ^ 2 = dx ^ 2 + dy ^ 2"
    using pos by (simp add: d_def)
  have mt: "move_toward a q = a\<lparr>ax := ax a + (dx / d) * s, ay := ay a + (dy / d) * s\<rparr>"
    using d0 by (simp add: move_toward_def Let_def dx_def dy_def d_def s_def)
  have "sq_dist (pos (move_toward a q)) q
        = (ax a + (dx / d) * s - fst q) ^ 2 + (ay a + (dy / d) * s - snd q) ^ 2"
    by (simp add: mt sq_dist_def pos_def)
  also have "ax a + (dx / d) * s - fst q = dx * (s / d - 1)"
    by (simp add: dx_def algebra_simps diff_divide_distrib)
  also have "ay a + (dy / d) * s - snd q = dy * (s / d - 1)"
    by (simp add: dy_def algebra_simps diff_divide_distrib)
  also have "(dx * (s / d - 1)) ^ 2 + (dy * (s / d - 1)) ^ 2 = (dx ^ 2 + dy ^ 2) * (s / d - 1) ^ 2"
    by (simp only: power_mult_distrib distrib_right)
  also have "\<dots> = d ^ 2 * (s / d - 1) ^ 2"
    by (simp add: d2)
  also have "\<dots> = (d * (s / d - 1)) ^ 2"
    by (simp add: power_mult_distrib)
  also have "d * (s / d - 1) = s - d"
    using d0 by (simp add: algebra_simps)
  also have "(s - d) ^ 2 = (d - s) ^ 2"
    by (simp add: power2_commute)
  finally show ?thesis
    by (simp add: D d_def s_def)
qed


lemma get_ant_speed_bounds:
  assumes "20 \<le> nest_size c" and "nest_size c \<le> MAX_NEST_SIZE"
  shows "1 \<le> get_ant_speed c \<and> get_ant_speed c \<le> 2.8"
proof -
  have "0 \<le> real_of_int (nest_size c - 20)" using assms(1) by simp
  moreover have "real_of_int (nest_size c - 20) \<le> 180"
    using assms(2) by (simp add: MAX_NEST_SIZE_def)
  ultimately show ?thesis
    by (simp add: get_ant_speed_def BASE_ANT_SPEED_def Let_def)
qed

lemma move_carrying:
  assumes "has_food a"
  shows "\<exists>c' a'. move c m a d = Inr (c', m, a')
           \<and> pos a' = pos (move_toward (a\<lparr>speed := get_ant_speed c\<rparr>) ANTHILL_POINT)"
proof -
  define a2 where "a2 = update_role c (a\<lparr>speed := get_ant_speed c\<rparr>) d"
  have hf: "has_food a2" and sp: "speed a2 = get_ant_speed c" and px: "ax a2 = ax a" and py: "ay a2 = ay a"
    using assms by (simp_all add: a2_def update_role_def)
  have ms: "move_search c m a d = a2"
    using hf by (simp add: move_search_def a2_def Let_def)
  have mt: "pos (move_toward a2 ANTHILL_POINT) = pos (move_toward (a\<lparr>speed := get_ant_speed c\<rparr>) ANTHILL_POINT)"
    using sp px py by (simp add: move_toward_def Let_def pos_def)
  have "\<exists>c1 a3. move_step c m a2 d = Inr (c1, m, a3) \<and> pos a3 = pos (move_toward a2 ANTHILL_POINT)"
    using hf by (simp add: move_step_def Let_def pos_def)
  then obtain c1 a3 where st: "move_step c m a2 d = Inr (c1, m, a3)" and p3: "pos a3 = pos (move_toward a2 ANTHILL_POINT)"
    by blast
  obtain c2 a4 where mb: "move_build c1 a3 d = (c2, a4)" by (cases "move_build c1 a3 d")
  then have p4: "pos a4 = pos a3"
    by (auto simp: move_build_def Let_def pos_def split: if_splits)
  have "move c m a d = Inr (c2, m, a4)"
    by (simp add: move_def ms st mb)
  with p4 p3 mt show ?thesis by simp
qed

lemma carrying_step:
  assumes hf: "has_food a"
    and far: "FOOD_COLLECTION_RANGE_SQUARED \<le> sq_dist (pos a) ANTHILL_POINT"
    and n1: "20 \<le> nest_size c" and n2: "nest_size c \<le> MAX_NEST_SIZE"
    and mv: "move c m a d = Inr (c', m', a')"
  shows "dist_to_nest a' = dist_to_nest a - get_ant_speed c"
proof -
  let ?a1 = "a\<lparr>speed := get_ant_speed c\<rparr>"
  from move_carrying[OF hf, of c m d] mv
  have p: "pos a' = pos (move_toward ?a1 ANTHILL_POINT)" by auto
  have pa: "pos ?a1 = pos a" by (simp add: pos_def)
  from far have big: "100 \<le> sq_dist (pos a) ANTHILL_POINT"
    by (simp add: FOOD_COLLECTION_RANGE_SQUARED_def)
  then have nz: "sq_dist (pos ?a1) ANTHILL_POINT \<noteq> 0" using pa by simp
  have "sqrt 100 \<le> sqrt (sq_dist (pos a) ANTHILL_POINT)"
    using big by (simp only: real_sqrt_le_iff)
  then have d10: "10 \<le> sqrt (sq_dist (pos a) ANTHILL_POINT)"
    by simp
  from get_ant_speed_bounds[OF n1 n2] d10
  have le: "0 \<le> sqrt (sq_dist (pos a) ANTHILL_POINT) - get_ant_speed c" by simp
  have "sq_dist (pos a') ANTHILL_POINT = (sqrt (sq_dist (pos a) ANTHILL_POINT) - get_ant_speed c) ^ 2"
    using move_toward_sq_dist[OF nz] p pa by simp
  then have "dist_to_nest a' = \<bar>sqrt (sq_dist (pos a) ANTHILL_POINT) - get_ant_speed c\<bar>"
    by (simp add: dist_to_nest_def)
  with le show ?thesis by (simp add: dist_to_nest_def)
qed

lemma move_ants_nth:
  assumes "move_ants c m as ds k = Inr (c', m', as')" and "i < length as"
  shows "\<exists>ci mi ci' mi'. move ci mi (as ! i) (ds (k + i)) = Inr (ci', mi', as' ! i)
           \<and> nest_size ci = nest_size c \<and> food_storage c \<le> food_storage ci"
  using assms
proof (induction as arbitrary: c m k i as')
  case Nil
  then show ?case by simp
next
  case (Cons a as)
  from Cons.prems(1) obtain c1 m1 a1 as1 where
    mv: "move c m a (ds k) = Inr (c1, m1, a1)" and
    rest: "move_ants c1 m1 as ds (Suc k) = Inr (c', m', as1)" and
    eq: "as' = a1 # as1"
    by (auto split: sum.splits prod.splits)
  show ?case
  proof (cases i)
    case 0
    with mv eq show ?thesis by auto
  next
    case (Suc j)
    with Cons.prems(2) have j: "j < length as" by simp
    from Cons.IH[OF rest j] obtain ci mi ci' mi' where
      "move ci mi (as ! j) (ds (Suc k + j)) = Inr (ci', mi', as1 ! j)"
      "nest_size ci = nest_size c1" "food_storage c1 \<le> food_storage ci"
      by blast
    with move_frame[OF mv] Suc eq show ?thesis
      by (intro exI[of _ ci] exI[of _ mi] exI[of _ ci'] exI[of _ mi']) simp
  qed
qed

text \<open>
  C9. In every iteration of the main loop, an agent that carries food and whose squared
  distance to the anthill is at least FOOD_COLLECTION_RANGE_SQUARED ends the iteration
  nearer to the anthill by exactly the agent speed, which is positive and smaller than the
  collection radius; so its distance strictly decreases. The bounds on the nest size are
  those every colony constructed by \<open>Colony_init\<close> keeps (see C5); positions are
  real numbers here.
\<close>

theorem carrying_agent_approaches_nest:
  assumes "tick w inp = Inr w'"
    and "i < length (ants w)"
    and "has_food (ants w ! i)"
    and "FOOD_COLLECTION_RANGE_SQUARED \<le> sq_dist (pos (ants w ! i)) ANTHILL_POINT"
    and "20 \<le> nest_size (colony w)" and "nest_size (colony w) \<le> MAX_NEST_SIZE"
  shows "dist_to_nest (ants w' ! i) = dist_to_nest (ants w ! i) - get_ant_speed (colony w')
         \<and> dist_to_nest (ants w' ! i) < dist_to_nest (ants w ! i)
         \<and> (get_ant_speed (colony w')) ^ 2 < FOOD_COLLECTION_RANGE_SQUARED"
proof -
  from assms(1) obtain m1 nid c1 na c2 m2 as2 where
    cu: "Colony_update (colony w) (length (ants w)) (growth_draw inp) (newborn_role_draw inp) = (c1, na)"
    and mv: "move_ants c1 m1 (case na of Some a \<Rightarrow> ants w @ [a] | None \<Rightarrow> ants w) (ant_draws inp) 0 = Inr (c2, m2, as2)"
    and w': "w' = \<lparr>colony = c2, ants = as2, food_manager = m2, next_food_id = nid\<rparr>"
    by (rule tick_Inr_cases)
  let ?as1 = "case na of Some a \<Rightarrow> ants w @ [a] | None \<Rightarrow> ants w"
  have i1: "i < length ?as1" and nth1: "?as1 ! i = ants w ! i"
    using assms(2) by (auto split: option.splits simp: nth_append)
  from Colony_update_fields[OF cu] assms(5,6)
  have n1: "20 \<le> nest_size c1" and n2: "nest_size c1 \<le> MAX_NEST_SIZE"
    by (auto split: if_splits)
  from move_ants_nth[OF mv i1] nth1 obtain ci mi ci' mi' where
    m: "move ci mi (ants w ! i) (ant_draws inp (0 + i)) = Inr (ci', mi', as2 ! i)"
    and nci: "nest_size ci = nest_size c1"
    by auto
  from move_ants_frame[OF mv] w' have nc2: "nest_size (colony w') = nest_size c1" by simp
  have sp: "get_ant_speed ci = get_ant_speed (colony w')"
    by (simp add: get_ant_speed_def nci nc2)
  from n1 n2 nci have b: "20 \<le> nest_size ci" "nest_size ci \<le> MAX_NEST_SIZE" by simp_all
  from carrying_step[OF assms(3,4) b m] sp w'
  have eq: "dist_to_nest (ants w' ! i) = dist_to_nest (ants w ! i) - get_ant_speed (colony w')"
    by simp
  from get_ant_speed_bounds[OF b] sp
  have s: "1 \<le> get_ant_speed (colony w')" "get_ant_speed (colony w') \<le> 2.8" by simp_all
  then have "(get_ant_speed (colony w')) ^ 2 \<le> 2.8 ^ 2"
    by (intro power_mono) simp_all
  then have "(get_ant_speed (colony w')) ^ 2 < FOOD_COLLECTION_RANGE_SQUARED"
    by (simp add: FOOD_COLLECTION_RANGE_SQUARED_def power2_eq_square)
  with eq s show ?thesis by simp
qed


lemma sqrt_2500: "sqrt 2500 = 50"
  by (rule real_sqrt_unique) simp_all

lemma carry_world_tick: "tick carry_world quiet_input = Inr carry_world_next"
  by (simp add: tick_def carry_world_def carrier_def quiet_input_def carry_world_next_def Colony_update_def
      Colony_init_def Ant_init_def get_ant_speed_def move_def move_search_def move_step_def
      move_build_def update_role_def find_food_Manager_init build_def choice_def sq_dist_def
      move_toward_def sqrt_2500 power2_eq_square
      pos_def params Let_def)

text \<open>An agent at distance 50 is at distance 49 after the iteration.\<close>

theorem carrying_agent_approaches_nest_witness:
  "tick carry_world quiet_input = Inr carry_world_next
   \<and> 0 < length (ants carry_world)
   \<and> has_food (ants carry_world ! 0)
   \<and> FOOD_COLLECTION_RANGE_SQUARED \<le> sq_dist (pos (ants carry_world ! 0)) ANTHILL_POINT
   \<and> 20 \<le> nest_size (colony carry_world) \<and> nest_size (colony carry_world) \<le> MAX_NEST_SIZE
   \<and> dist_to_nest (ants carry_world ! 0) = 50
   \<and> dist_to_nest (ants carry_world_next ! 0) = 49"
proof -
  have h1: "tick carry_world quiet_input = Inr carry_world_next" by (rule carry_world_tick)
  have h2: "0 < length (ants carry_world)" by (simp add: carry_world_def)
  have h3: "has_food (ants carry_world ! 0)" by (simp add: carry_world_def carrier_def)
  have h4: "FOOD_COLLECTION_RANGE_SQUARED \<le> sq_dist (pos (ants carry_world ! 0)) ANTHILL_POINT"
    by (simp add: carry_world_def carrier_def sq_dist_def pos_def params)
  have h5: "20 \<le> nest_size (colony carry_world)" by (simp add: carry_world_def Colony_init_def)
  have h6: "nest_size (colony carry_world) \<le> MAX_NEST_SIZE"
    by (simp add: carry_world_def Colony_init_def MAX_NEST_SIZE_def)
  have d: "dist_to_nest (ants carry_world ! 0) = 50"
    by (simp add: dist_to_nest_def carry_world_def carrier_def sq_dist_def pos_def params sqrt_2500)
  have s: "get_ant_speed (colony carry_world_next) = 1"
    by (simp add: carry_world_next_def get_ant_speed_def BASE_ANT_SPEED_def)
  from carrying_agent_approaches_nest[OF h1 h2 h3 h4 h5 h6] d s
  have "dist_to_nest (ants carry_world_next ! 0) = 49" by simp
  with h1 h2 h3 h4 h5 h6 d show ?thesis by simp
qed

subsection \<open>The food search\<close>

lemma find_app:
  "find P (xs @ ys) = (case find P xs of Some x \<Rightarrow> Some x | None \<Rightarrow> find P ys)"
  by (induction xs) simp_all

lemma scan_tile_find: "scan_tile a tile = find (in_detection_range a) tile"
  by (induction tile) simp_all

lemma scan_row_find: "scan_row a row = find (in_detection_range a) (concat row)"
  by (induction row) (simp_all add: scan_tile_find find_app split: option.splits)

lemma scan_repository_find:
  "scan_repository a rows = find (in_detection_range a) (concat (concat rows))"
  by (induction rows) (simp_all add: scan_row_find find_app split: option.splits)

lemma find_first:
  "\<forall>g\<in>set pre. \<not> P g \<Longrightarrow> P f \<Longrightarrow> find P (pre @ f # post) = Some f"
  by (induction pre) simp_all

lemma concat_empty_rows: "concat (concat (replicate k (replicate n []))) = ([]::'a list)"
  by (induction k) simp_all

lemma concat_bucket_grid: "concat (concat (bucket_grid i j bucket)) = bucket"
  by (simp add: bucket_grid_def concat_empty_rows)

lemma bucket_grid_empty:
  assumes "i \<le> 95" and "j \<le> 107"
  shows "bucket_grid i j [] = repository Manager_init"
proof -
  have split: "replicate (k + (1 + l)) x = replicate k x @ [x] @ replicate l x" for k l and x :: 'a
    by (simp add: replicate_add replicate_append_same)
  have "replicate 108 ([]::food list) = replicate (j + (1 + (107 - j))) []"
    using assms(2) by simp
  then have r: "replicate j [] @ [[]] @ replicate (107 - j) [] = replicate 108 ([]::food list)"
    by (simp only: split)
  have "replicate 96 (replicate 108 ([]::food list)) = replicate (i + (1 + (95 - i))) (replicate 108 [])"
    using assms(1) by simp
  then have "replicate i (replicate 108 []) @ [replicate 108 []] @ replicate (95 - i) (replicate 108 [])
        = replicate 96 (replicate 108 ([]::food list))"
    by (simp only: split)
  with r show ?thesis by (simp add: bucket_grid_def Manager_init_def params)
qed

text \<open>
  C8, as the code has it. The food search gives the agent as target the first item, in the
  order rows, tiles, items of the repository, whose squared distance to the agent is
  strictly below FOOD_DETECTION_RANGE_SQUARED, and changes nothing else; when no item is
  strictly within range it leaves the agent as it was, so a target stored earlier is
  kept. Ant.move runs the search for every agent that is a scavenger after the role
  refresh and carries no food, whether or not it has a target.
\<close>

theorem find_food_first_in_range:
  "(concat (concat (repository m)) = pre @ f # post
      \<and> (\<forall>g\<in>set pre. \<not> sq_dist (pos a) (food_pos g) < FOOD_DETECTION_RANGE_SQUARED)
      \<and> sq_dist (pos a) (food_pos f) < FOOD_DETECTION_RANGE_SQUARED
    \<longrightarrow> find_food a m = a\<lparr>target := Some f\<rparr>)
   \<and> ((\<forall>g\<in>set (concat (concat (repository m))).
          \<not> sq_dist (pos a) (food_pos g) < FOOD_DETECTION_RANGE_SQUARED)
    \<longrightarrow> find_food a m = a)
   \<and> (role (update_role c (a\<lparr>speed := get_ant_speed c\<rparr>) d) = Scavenger \<and> \<not> has_food a
    \<longrightarrow> move_search c m a d = find_food (update_role c (a\<lparr>speed := get_ant_speed c\<rparr>) d) m)"
proof (intro conjI impI)
  assume h: "concat (concat (repository m)) = pre @ f # post
      \<and> (\<forall>g\<in>set pre. \<not> sq_dist (pos a) (food_pos g) < FOOD_DETECTION_RANGE_SQUARED)
      \<and> sq_dist (pos a) (food_pos f) < FOOD_DETECTION_RANGE_SQUARED"
  then have "find (in_detection_range a) (pre @ f # post) = Some f"
    by (intro find_first) (simp_all add: in_detection_range_def)
  with h show "find_food a m = a\<lparr>target := Some f\<rparr>"
    by (simp add: find_food_def scan_repository_find)
next
  assume "\<forall>g\<in>set (concat (concat (repository m))).
          \<not> sq_dist (pos a) (food_pos g) < FOOD_DETECTION_RANGE_SQUARED"
  then have "find (in_detection_range a) (concat (concat (repository m))) = None"
    unfolding find_None_iff in_detection_range_def by blast
  then show "find_food a m = a"
    by (simp add: find_food_def scan_repository_find)
next
  assume "role (update_role c (a\<lparr>speed := get_ant_speed c\<rparr>) d) = Scavenger \<and> \<not> has_food a"
  moreover have "has_food (update_role c (a\<lparr>speed := get_ant_speed c\<rparr>) d) = has_food a"
    by (simp add: update_role_def)
  ultimately show "move_search c m a d = find_food (update_role c (a\<lparr>speed := get_ant_speed c\<rparr>) d) m"
    by (simp add: move_search_def Let_def)
qed


lemma scan_repository_bucket_grid: "scan_repository a (bucket_grid i j bucket) = scan_tile a bucket"
  by (simp add: scan_repository_find concat_bucket_grid scan_tile_find)

text \<open>
  The item on the boundary is skipped, the first item strictly in range is taken although
  a later one is nearer; with only the boundary item indexed the agent is unchanged.
\<close>

theorem find_food_first_in_range_witness:
  "concat (concat (repository pile_index)) = [boundary_food] @ first_food # [nearest_food]
   \<and> sq_dist (pos searcher) (food_pos boundary_food) = FOOD_DETECTION_RANGE_SQUARED
   \<and> sq_dist (pos searcher) (food_pos first_food) < FOOD_DETECTION_RANGE_SQUARED
   \<and> sq_dist (pos searcher) (food_pos nearest_food) < sq_dist (pos searcher) (food_pos first_food)
   \<and> find_food searcher pile_index = searcher\<lparr>target := Some first_food\<rparr>
   \<and> concat (concat (repository boundary_index)) = [boundary_food]
   \<and> find_food searcher boundary_index = searcher
   \<and> role (update_role Colony_init (searcher\<lparr>speed := get_ant_speed Colony_init\<rparr>) still_draws) = Scavenger
   \<and> \<not> has_food searcher
   \<and> move_search Colony_init pile_index searcher still_draws = searcher\<lparr>target := Some first_food\<rparr>"
proof -
  have items: "concat (concat (repository pile_index)) = [boundary_food] @ first_food # [nearest_food]"
    by (simp add: pile_index_def concat_bucket_grid)
  have b: "sq_dist (pos searcher) (food_pos boundary_food) = FOOD_DETECTION_RANGE_SQUARED"
    by (simp add: sq_dist_def pos_def food_pos_def searcher_def boundary_food_def params)
  have f: "sq_dist (pos searcher) (food_pos first_food) < FOOD_DETECTION_RANGE_SQUARED"
    by (simp add: sq_dist_def pos_def food_pos_def searcher_def first_food_def params)
  have n: "sq_dist (pos searcher) (food_pos nearest_food) < sq_dist (pos searcher) (food_pos first_food)"
    by (simp add: sq_dist_def pos_def food_pos_def searcher_def first_food_def nearest_food_def)
  have items2: "concat (concat (repository boundary_index)) = [boundary_food]"
    by (simp add: boundary_index_def concat_bucket_grid)
  have u: "update_role Colony_init (searcher\<lparr>speed := get_ant_speed Colony_init\<rparr>) still_draws = searcher"
    by (simp add: update_role_def Colony_init_def get_ant_speed_def searcher_def still_draws_def params)
  have h: "\<not> has_food searcher" by (simp add: searcher_def)
  have r: "role searcher = Scavenger" by (simp add: searcher_def)
  from find_food_first_in_range[of pile_index "[boundary_food]" first_food "[nearest_food]" searcher
      Colony_init still_draws] items b f u h r
  have 1: "find_food searcher pile_index = searcher\<lparr>target := Some first_food\<rparr>"
    and 3: "move_search Colony_init pile_index searcher still_draws = find_food searcher pile_index"
    by simp_all
  from find_food_first_in_range[of boundary_index _ _ _ searcher] items2 b
  have 2: "find_food searcher boundary_index = searcher" by simp
  from items b f n 1 items2 2 u h r 3 show ?thesis by simp
qed

text \<open>
  C8 as stated fails for a scavenger that already has a target: with no item strictly in
  range the search does not leave the target unset, it leaves the old target in place.
\<close>

theorem find_food_keeps_stale_target:
  "role (searcher\<lparr>target := Some first_food\<rparr>) = Scavenger
   \<and> \<not> has_food (searcher\<lparr>target := Some first_food\<rparr>)
   \<and> concat (concat (repository boundary_index)) = [boundary_food]
   \<and> \<not> sq_dist (pos (searcher\<lparr>target := Some first_food\<rparr>)) (food_pos boundary_food)
         < FOOD_DETECTION_RANGE_SQUARED
   \<and> target (find_food (searcher\<lparr>target := Some first_food\<rparr>) boundary_index) = Some first_food"
  by (simp add: find_food_def boundary_index_def scan_repository_bucket_grid concat_bucket_grid
      in_detection_range_def sq_dist_def pos_def food_pos_def searcher_def boundary_food_def params)

subsection \<open>Roles, harvesting and building within a move\<close>

lemma sqrt_25: "sqrt 25 = 5"
  by (rule real_sqrt_unique) simp_all

lemmas eval_defs =
  tick_def Colony_update_def Colony_init_def Ant_init_def get_ant_speed_def move_def
  move_search_def move_step_def move_build_def update_role_def find_food_Manager_init build_def
  choice_def sq_dist_def move_toward_def pos_def food_pos_def power2_eq_square Let_def

lemma hungry_world_tick: "tick hungry_world calm_input = Inr hungry_world_next"
  by (simp add: hungry_world_def hungry_world_next_def near_carrier_def builder_at_nest_def
      calm_input_def still_draws_def eval_defs params sqrt_25)

lemma far_world_tick: "tick far_world calm_input = Inr far_world_next"
  by (simp add: far_world_def far_world_next_def carrier_def builder_at_nest_def
      calm_input_def still_draws_def eval_defs params sqrt_2500)

lemma move_search_forced:
  "food_storage c < CRITICAL_FOOD_LEVEL \<Longrightarrow> role (move_search c m a d) = Scavenger"
  by (simp add: move_search_def update_role_def find_food_def Let_def split: option.splits)

lemma move_step_role: "move_step c m a d = Inr (c', m', a') \<Longrightarrow> role a' = role a"
  by (auto simp: move_step_def move_toward_def Let_def split: if_splits option.splits sum.splits)

lemma move_build_role: "move_build c a d = (c', a') \<Longrightarrow> role a' = role a"
  by (auto simp: move_build_def Let_def split: if_splits)

lemma move_forced:
  assumes "food_storage c < CRITICAL_FOOD_LEVEL" and "move c m a d = Inr (c', m', a')"
  shows "role a' = Scavenger"
proof -
  from assms(2) obtain c1 a1 where
    st: "move_step c m (move_search c m a d) d = Inr (c1, m', a1)" and
    mb: "move_build c1 a1 d = (c', a')"
    by (auto simp: move_def split: sum.splits prod.splits)
  from move_build_role[OF mb] move_step_role[OF st] move_search_forced[OF assms(1)]
  show ?thesis by simp
qed

text \<open>
  The storage never decreases during the pass over the agents, so if it is below the
  critical level when the pass ends it was below it at every agent's role refresh.
\<close>

lemma move_ants_forced:
  assumes "move_ants c m as ds k = Inr (c', m', as')"
    and "food_storage c' < CRITICAL_FOOD_LEVEL"
  shows "list_all (\<lambda>a. role a = Scavenger) as'"
  using assms
proof (induction as arbitrary: c m k as')
  case Nil
  then show ?case by simp
next
  case (Cons a as)
  from Cons.prems(1) obtain c1 m1 a1 as1 where
    mv: "move c m a (ds k) = Inr (c1, m1, a1)" and
    rest: "move_ants c1 m1 as ds (Suc k) = Inr (c', m', as1)" and
    eq: "as' = a1 # as1"
    by (auto split: sum.splits prod.splits)
  from move_frame[OF mv] move_ants_frame[OF rest] Cons.prems(2)
  have low: "food_storage c < CRITICAL_FOOD_LEVEL" by simp
  from Cons.IH[OF rest Cons.prems(2)] move_forced[OF low mv] eq show ?case by simp
qed

text \<open>
  C3, as the code has it. The role refresh of an agent reads the storage at the moment
  the agent is updated, after the deposits of the agents updated before it in the same
  pass. If the storage is below CRITICAL_FOOD_LEVEL at the end of an iteration of the main
  loop, then every agent is a scavenger after that iteration; from a state below the
  level this fails only when deposits made during the pass lift the storage to the level.
\<close>

theorem role_forcing:
  assumes "tick w inp = Inr w'"
    and "food_storage (colony w') < CRITICAL_FOOD_LEVEL"
  shows "list_all (\<lambda>a. role a = Scavenger) (ants w')"
proof -
  from assms(1) obtain m1 nid c1 na c2 m2 as2 where
    mv: "move_ants c1 m1 (case na of Some a \<Rightarrow> ants w @ [a] | None \<Rightarrow> ants w) (ant_draws inp) 0 = Inr (c2, m2, as2)"
    and w': "w' = \<lparr>colony = c2, ants = as2, food_manager = m2, next_food_id = nid\<rparr>"
    by (rule tick_Inr_cases)
  from assms(2) w' have "food_storage c2 < CRITICAL_FOOD_LEVEL" by simp
  from move_ants_forced[OF mv this] w' show ?thesis by simp
qed

text \<open>
  Storage 295 and a carrier too far from the anthill to deposit: the storage ends at
  294.8 and the builder is a scavenger after the iteration.
\<close>

theorem role_forcing_witness:
  "tick far_world calm_input = Inr far_world_next
   \<and> food_storage (colony far_world) < CRITICAL_FOOD_LEVEL
   \<and> food_storage (colony far_world_next) < CRITICAL_FOOD_LEVEL
   \<and> role (ants far_world ! 1) = Builder
   \<and> role (ants far_world_next ! 0) = Scavenger
   \<and> role (ants far_world_next ! 1) = Scavenger"
proof -
  have h1: "tick far_world calm_input = Inr far_world_next" by (rule far_world_tick)
  have h0: "food_storage (colony far_world) < CRITICAL_FOOD_LEVEL"
    by (simp add: far_world_def CRITICAL_FOOD_LEVEL_def)
  have h2: "food_storage (colony far_world_next) < CRITICAL_FOOD_LEVEL"
    by (simp add: far_world_next_def CRITICAL_FOOD_LEVEL_def)
  have b: "role (ants far_world ! 1) = Builder"
    by (simp add: far_world_def builder_at_nest_def)
  from role_forcing[OF h1 h2]
  have "role (ants far_world_next ! 0) = Scavenger \<and> role (ants far_world_next ! 1) = Scavenger"
    by (simp add: far_world_next_def)
  with h1 h0 h2 b show ?thesis by simp
qed

text \<open>
  C3 as stated fails: storage 295 is below the critical level, the carrier deposits
  first, and the builder is still a builder after the iteration.
\<close>

theorem role_forcing_fails_after_deposit:
  "food_storage (colony hungry_world) < CRITICAL_FOOD_LEVEL
   \<and> tick hungry_world calm_input = Inr hungry_world_next
   \<and> role (ants hungry_world_next ! 1) = Builder
   \<and> \<not> food_storage (colony hungry_world_next) < CRITICAL_FOOD_LEVEL"
  by (simp add: hungry_world_tick)
     (simp add: hungry_world_def hungry_world_next_def Colony_init_def CRITICAL_FOOD_LEVEL_def)


lemma sqrt_16: "sqrt 16 = 4"
  by (rule real_sqrt_unique) simp_all

lemma sqrt_100: "sqrt 100 = 10"
  by (rule real_sqrt_unique) simp_all

lemma py_index_Inr: "py_index xs k = Inr i \<Longrightarrow> i < length xs"
  by (auto simp: py_index_def Let_def split: if_splits)

lemma Manager_remove_absent:
  assumes "t \<notin> set (concat (concat (repository m)))" and "Manager_remove m t = Inr m'"
  shows "m' = m"
proof -
  from assms(2) obtain i j where
    i: "py_index (repository m) (fx t div 10) = Inr i" and
    j: "py_index (repository m ! i) (fy t div 10) = Inr j"
    by (auto simp: Manager_remove_def Let_def split: sum.splits)
  from py_index_Inr[OF i] have "repository m ! i \<in> set (repository m)" by simp
  moreover from py_index_Inr[OF j] have "repository m ! i ! j \<in> set (repository m ! i)" by simp
  ultimately have "t \<notin> set (repository m ! i ! j)"
    using assms(1) by auto
  with assms(2) i j show ?thesis
    by (simp add: Manager_remove_def Let_def)
qed

lemma Manager_remove_bucket_grid:
  assumes "i \<le> 95" and "j \<le> 107" and "fx t div 10 = int i" and "fy t div 10 = int j"
  shows "Manager_remove \<lparr>repository = bucket_grid i j bucket\<rparr> t
         = Inr \<lparr>repository = bucket_grid i j (remove1 t bucket)\<rparr>"
proof -
  let ?E = "replicate 108 ([]::food list)"
  let ?row = "replicate j [] @ [bucket] @ replicate (107 - j) []"
  have len: "length (bucket_grid i j bucket) = 96"
    using assms(1) by (simp add: bucket_grid_def)
  have pi: "py_index (bucket_grid i j bucket) (fx t div 10) = Inr i"
    using assms(1,3) len by (simp add: py_index_def Let_def)
  have row: "bucket_grid i j bucket ! i = ?row"
    by (simp add: bucket_grid_def nth_append)
  have lenr: "length ?row = 108" using assms(2) by simp
  have pj: "py_index ?row (fy t div 10) = Inr j"
    using assms(2,4) lenr by (simp add: py_index_def Let_def)
  have b: "?row ! j = bucket" by (simp add: nth_append)
  have updr: "?row[j := b'] = replicate j [] @ [b'] @ replicate (107 - j) []" for b'
    by (simp add: list_update_append)
  have updg: "(bucket_grid i j bucket)[i := r] = replicate i ?E @ [r] @ replicate (95 - i) ?E" for r
    by (simp add: bucket_grid_def list_update_append)
  show ?thesis
  proof (cases "t \<in> set bucket")
    case True
    then show ?thesis
      unfolding Manager_remove_def Let_def
      by (simp add: pi row pj b updr updg del: append.simps) (simp add: bucket_grid_def)
  next
    case False
    then have "remove1 t bucket = bucket" by (simp add: remove1_idem)
    with False show ?thesis
      unfolding Manager_remove_def Let_def
      by (simp add: pi row pj b del: append.simps)
  qed
qed

lemma find_food_bucket_grid:
  "find_food a \<lparr>repository = bucket_grid i j bucket\<rparr> =
     (case scan_tile a bucket of Some f \<Rightarrow> a\<lparr>target := Some f\<rparr> | None \<Rightarrow> a)"
  by (simp add: find_food_def scan_repository_bucket_grid)

lemma Manager_remove_last_food:
  "Manager_remove \<lparr>repository = bucket_grid 48 54 bucket\<rparr> last_food
   = Inr \<lparr>repository = bucket_grid 48 54 (remove1 last_food bucket)\<rparr>"
  by (rule Manager_remove_bucket_grid) (simp_all add: last_food_def)

lemmas eval_defs2 =
  tick_def Colony_update_def Colony_init_def Ant_init_def get_ant_speed_def move_def
  move_search_def move_step_def move_build_def update_role_def find_food_bucket_grid build_def
  choice_def sq_dist_def move_toward_def pos_def food_pos_def power2_eq_square Let_def
  in_detection_range_def Manager_remove_last_food

lemma twin_world_tick1: "tick twin_world calm_input = Inr twin_world_harvested"
  by (simp add: twin_world_def twin_world_harvested_def twin_def
      calm_input_def still_draws_def eval_defs2 params sqrt_100)
     (simp add: last_food_def)

lemma twin_world_tick2: "tick twin_world_harvested calm_input = Inr twin_world_credited"
  by (simp add: twin_world_harvested_def twin_world_credited_def
      calm_input_def still_draws_def eval_defs2 params sqrt_16)


text \<open>
  The repository keeps the shape of its construction, and in a repository of that shape
  Manager.add accepts exactly the items that have a tile; Manager.remove of such an item
  raises nothing.
\<close>

lemma py_index_in_range:
  assumes "- int (length xs) \<le> k" and "k < int (length xs)"
  shows "\<exists>i. py_index xs k = Inr i \<and> i < length xs"
  using assms by (auto simp: py_index_def Let_def)

lemma py_index_Inr_range:
  "py_index xs k = Inr i \<Longrightarrow> - int (length xs) \<le> k \<and> k < int (length xs)"
  by (auto simp: py_index_def Let_def split: if_splits)

lemma grid_shaped_row:
  "grid_shaped m \<Longrightarrow> i < length (repository m) \<Longrightarrow> length (repository m ! i) = nat (HEIGHT div 10)"
  by (simp add: grid_shaped_def list_all_length)

lemma grid_shaped_update:
  assumes "grid_shaped m" and "i < length (repository m)"
  shows "grid_shaped (m\<lparr>repository := (repository m)[i := (repository m ! i)[j := b]]\<rparr>)"
  using assms by (auto simp: grid_shaped_def list_all_length nth_list_update)

lemma grid_shaped_Manager_init: "grid_shaped Manager_init"
  by (simp add: grid_shaped_def Manager_init_def list_all_length)

lemma grid_lookup:
  assumes "grid_shaped m" and "has_tile f"
  shows "\<exists>i j. py_index (repository m) (fx f div 10) = Inr i \<and> i < length (repository m)
           \<and> py_index (repository m ! i) (fy f div 10) = Inr j \<and> j < length (repository m ! i)"
proof -
  from assms have "- int (length (repository m)) \<le> fx f div 10" "fx f div 10 < int (length (repository m))"
    by (simp_all add: grid_shaped_def has_tile_def WIDTH_def)
  from py_index_in_range[OF this] obtain i where
    i: "py_index (repository m) (fx f div 10) = Inr i" "i < length (repository m)" by blast
  from grid_shaped_row[OF assms(1) i(2)] assms(2)
  have "- int (length (repository m ! i)) \<le> fy f div 10" "fy f div 10 < int (length (repository m ! i))"
    by (simp_all add: has_tile_def HEIGHT_def)
  from py_index_in_range[OF this] i show ?thesis by blast
qed

lemma Manager_remove_defined:
  assumes "grid_shaped m" and "has_tile t"
  shows "\<exists>m'. Manager_remove m t = Inr m'"
proof -
  from grid_lookup[OF assms] obtain i j where
    "py_index (repository m) (fx t div 10) = Inr i"
    "py_index (repository m ! i) (fy t div 10) = Inr j" by blast
  then show ?thesis by (simp add: Manager_remove_def Let_def)
qed

lemma Manager_add_defined_iff:
  assumes "grid_shaped m"
  shows "(\<exists>m'. Manager_add m f = Inr m') \<longleftrightarrow> has_tile f"
proof
  assume "\<exists>m'. Manager_add m f = Inr m'"
  then obtain i j where
    i: "py_index (repository m) (fx f div 10) = Inr i" and
    j: "py_index (repository m ! i) (fy f div 10) = Inr j"
    by (auto simp: Manager_add_def Let_def split: sum.splits)
  from py_index_Inr[OF i] grid_shaped_row[OF assms] have "length (repository m ! i) = nat (HEIGHT div 10)"
    by simp
  with py_index_Inr_range[OF i] py_index_Inr_range[OF j] assms show "has_tile f"
    by (simp add: has_tile_def grid_shaped_def params)
next
  assume "has_tile f"
  from grid_lookup[OF assms this] obtain i j where
    "py_index (repository m) (fx f div 10) = Inr i"
    "py_index (repository m ! i) (fy f div 10) = Inr j" by blast
  then show "\<exists>m'. Manager_add m f = Inr m'" by (simp add: Manager_add_def Let_def)
qed

lemma Manager_add_shape:
  assumes "grid_shaped m" and "Manager_add m f = Inr m'"
  shows "grid_shaped m'"
proof -
  from assms(2) obtain i j where
    i: "py_index (repository m) (fx f div 10) = Inr i" and
    m': "m' = m\<lparr>repository := (repository m)[i := (repository m ! i)[j := repository m ! i ! j @ [f]]]\<rparr>"
    by (auto simp: Manager_add_def Let_def split: sum.splits)
  from grid_shaped_update[OF assms(1) py_index_Inr[OF i]] m' show ?thesis by simp
qed

lemma Manager_remove_shape:
  assumes "grid_shaped m" and "Manager_remove m f = Inr m'"
  shows "grid_shaped m'"
proof -
  from assms(2) obtain i j where
    i: "py_index (repository m) (fx f div 10) = Inr i" and
    m': "m' = m \<or> m' = m\<lparr>repository := (repository m)[i := (repository m ! i)[j := remove1 f (repository m ! i ! j)]]\<rparr>"
    by (auto simp: Manager_remove_def Let_def split: sum.splits if_splits)
  from grid_shaped_update[OF assms(1) py_index_Inr[OF i]] m' assms(1) show ?thesis by auto
qed

lemma grid_shaped_bucket_grid:
  assumes "i \<le> 95" and "j \<le> 107"
  shows "grid_shaped \<lparr>repository = bucket_grid i j bucket\<rparr>"
proof -
  have "length (replicate j ([]::food list) @ [bucket] @ replicate (107 - j) []) = 108"
    using assms(2) by simp
  with assms(1) show ?thesis
    by (auto simp: grid_shaped_def bucket_grid_def params list_all_iff)
qed

lemma spawn_food_shape:
  "grid_shaped m \<Longrightarrow> spawn_food m x y n next_id amounts = Inr (m', next_id') \<Longrightarrow> grid_shaped m'"
proof (induction n arbitrary: m next_id)
  case 0
  then show ?case by simp
next
  case (Suc n)
  from Suc.prems(2) obtain m1 where
    add: "Manager_add m \<lparr>fid = next_id, fx = x, fy = y, amount = randint 5 20 (amounts next_id)\<rparr> = Inr m1"
    and rest: "spawn_food m1 x y n (Suc next_id) amounts = Inr (m', next_id')"
    by (auto split: sum.splits)
  from Suc.IH[OF Manager_add_shape[OF Suc.prems(1) add] rest] show ?case .
qed

lemma handle_clicks_shape:
  "grid_shaped m \<Longrightarrow> handle_clicks m next_id amounts evs = Inr (m', next_id') \<Longrightarrow> grid_shaped m'"
proof (induction evs arbitrary: m next_id)
  case Nil
  then show ?case by simp
next
  case (Cons ev evs)
  obtain x y where ev: "ev = (x, y)" by (cases ev)
  from Cons.prems(2) ev obtain m1 n1 where
    sp: "spawn_food m x y FOOD_SPAWN_AMOUNT_PER_CLICK next_id amounts = Inr (m1, n1)"
    and rest: "handle_clicks m1 n1 amounts evs = Inr (m', next_id')"
    by (auto split: sum.splits prod.splits)
  from Cons.IH[OF spawn_food_shape[OF Cons.prems(1) sp] rest] show ?case .
qed

lemma move_shape:
  assumes "grid_shaped m" and "move c m a d = Inr (c', m', a')"
  shows "grid_shaped m'"
proof -
  from assms(2) obtain c1 a1 where
    st: "move_step c m (move_search c m a d) d = Inr (c1, m', a1)"
    by (auto simp: move_def split: sum.splits prod.splits)
  then have "m' = m \<or> (\<exists>t. Manager_remove m t = Inr m')"
    by (auto simp: move_step_def Let_def split: if_splits option.splits sum.splits)
  with assms(1) Manager_remove_shape show ?thesis by blast
qed

lemma move_ants_shape:
  "grid_shaped m \<Longrightarrow> move_ants c m as ds k = Inr (c', m', as') \<Longrightarrow> grid_shaped m'"
proof (induction as arbitrary: c m k as')
  case Nil
  then show ?case by simp
next
  case (Cons a as)
  from Cons.prems(2) obtain c1 m1 a1 as1 where
    mv: "move c m a (ds k) = Inr (c1, m1, a1)" and
    rest: "move_ants c1 m1 as ds (Suc k) = Inr (c', m', as1)"
    by (auto split: sum.splits prod.splits)
  from Cons.IH[OF move_shape[OF Cons.prems(1) mv] rest] show ?case .
qed

lemma tick_shape:
  assumes "grid_shaped (food_manager w)" and "tick w inp = Inr w'"
  shows "grid_shaped (food_manager w')"
proof -
  from assms(2) obtain m1 nid c1 na c2 m2 as2 where
    hc: "handle_clicks (food_manager w) (next_food_id w) (amount_draws inp) (clicks inp) = Inr (m1, nid)"
    and mv: "move_ants c1 m1 (case na of Some a \<Rightarrow> ants w @ [a] | None \<Rightarrow> ants w) (ant_draws inp) 0 = Inr (c2, m2, as2)"
    and w': "w' = \<lparr>colony = c2, ants = as2, food_manager = m2, next_food_id = nid\<rparr>"
    by (rule tick_Inr_cases)
  from move_ants_shape[OF handle_clicks_shape[OF assms(1) hc] mv] w' show ?thesis by simp
qed

text \<open>
  C1, as the code has it. Take an agent without food whose stored target is nowhere in
  the food index, the index having the shape of its construction and the target a tile
  in it (as every item that was ever added has). If its step toward the target ends
  within FOOD_COLLECTION_RANGE_SQUARED of it, the movement branch raises no error and
  returns the colony and the index as they were and the agent at its new position with
  the target cleared and the carrying flag set: the target is not checked against the
  index.
\<close>

theorem harvest_of_unindexed_target:
  assumes "grid_shaped m" and "has_tile t"
    and "\<not> has_food a" and "target a = Some t"
    and "t \<notin> set (concat (concat (repository m)))"
    and "sq_dist (pos (move_toward a (food_pos t))) (food_pos t) < FOOD_COLLECTION_RANGE_SQUARED"
  shows "move_step c m a d =
           Inr (c, m, (move_toward a (food_pos t))\<lparr>has_food := True, target := None\<rparr>)"
proof -
  from Manager_remove_defined[OF assms(1,2)] obtain m' where rm: "Manager_remove m t = Inr m'"
    by blast
  from Manager_remove_absent[OF assms(5) rm] rm have "Manager_remove m t = Inr m" by simp
  with assms(3,4,6) show ?thesis
    by (simp add: move_step_def Let_def)
qed

text \<open>The second of the two scavengers, once the first has taken the item.\<close>

theorem harvest_of_unindexed_target_witness:
  "grid_shaped \<lparr>repository = bucket_grid 48 54 []\<rparr> \<and> has_tile last_food
   \<and> \<not> has_food twin \<and> target twin = Some last_food
   \<and> concat (concat (repository \<lparr>repository = bucket_grid 48 54 []\<rparr>)) = []
   \<and> sq_dist (pos (move_toward twin (food_pos last_food))) (food_pos last_food)
        < FOOD_COLLECTION_RANGE_SQUARED
   \<and> move_step Colony_init \<lparr>repository = bucket_grid 48 54 []\<rparr> twin still_draws
       = Inr (Colony_init, \<lparr>repository = bucket_grid 48 54 []\<rparr>,
              twin\<lparr>ay := 536, has_food := True, target := None\<rparr>)
   \<and> has_food (twin\<lparr>ay := 536, has_food := True, target := None\<rparr>)"
proof -
  let ?m = "\<lparr>repository = bucket_grid 48 54 []\<rparr>"
  have g: "grid_shaped ?m" by (rule grid_shaped_bucket_grid) simp_all
  have t: "has_tile last_food" by (simp add: has_tile_def last_food_def params)
  have h1: "\<not> has_food twin" and h2: "target twin = Some last_food"
    by (simp_all add: twin_def)
  have items: "concat (concat (repository ?m)) = []"
    by (simp only: manager.select_convs concat_bucket_grid)
  have h3: "last_food \<notin> set (concat (concat (repository ?m)))"
    unfolding items by simp
  have mt: "move_toward twin (food_pos last_food) = twin\<lparr>ay := 536\<rparr>"
    by (simp add: move_toward_def food_pos_def twin_def last_food_def Let_def sqrt_100)
  have h4: "sq_dist (pos (move_toward twin (food_pos last_food))) (food_pos last_food)
        < FOOD_COLLECTION_RANGE_SQUARED"
    by (simp add: mt) (simp add: sq_dist_def pos_def food_pos_def twin_def last_food_def params)
  from harvest_of_unindexed_target[OF g t h1 h2 h3 h4, of Colony_init still_draws] mt
  have "move_step Colony_init ?m twin still_draws
       = Inr (Colony_init, ?m, twin\<lparr>ay := 536, has_food := True, target := None\<rparr>)"
    by simp
  with g t h1 h2 items h4 show ?thesis by simp
qed

text \<open>
  C1 as stated fails: the index holds a single item; after one iteration it holds none and
  both agents carry food; after the next both have deposited, and the storage has been
  credited 20 twice for the one item.
\<close>

theorem double_harvest_credit:
  "concat (concat (repository (food_manager twin_world))) = [last_food]
   \<and> tick twin_world calm_input = Inr twin_world_harvested
   \<and> concat (concat (repository (food_manager twin_world_harvested))) = []
   \<and> has_food (ants twin_world_harvested ! 0) \<and> has_food (ants twin_world_harvested ! 1)
   \<and> tick twin_world_harvested calm_input = Inr twin_world_credited
   \<and> food_storage (colony twin_world_credited)
       = food_storage (colony twin_world) - 2 * (2 * FOOD_CONSUMPTION_RATE) + 20 + 20"
proof -
  have 1: "concat (concat (repository (food_manager twin_world))) = [last_food]"
    by (simp only: twin_world_def world.select_convs manager.select_convs concat_bucket_grid)
  have 2: "concat (concat (repository (food_manager twin_world_harvested))) = []"
    by (simp only: twin_world_harvested_def world.select_convs manager.select_convs concat_bucket_grid)
  have 3: "has_food (ants twin_world_harvested ! 0) \<and> has_food (ants twin_world_harvested ! 1)"
    by (simp add: twin_world_harvested_def)
  have 4: "food_storage (colony twin_world_credited)
       = food_storage (colony twin_world) - 2 * (2 * FOOD_CONSUMPTION_RATE) + 20 + 20"
    by (simp add: twin_world_def twin_world_credited_def Colony_init_def params)
  from 1 2 3 4 twin_world_tick1 twin_world_tick2 show ?thesis by simp
qed

text \<open>
  C2, as the code has it. The movement branch of Ant.move always runs first. If after it
  the agent is a builder without food and the building draw is below 0.3, the result of
  the move is the result of the movement branch with the building flag set and with
  BUILD_EFFICIENCY added to the building progress exactly when the squared distance of
  the position after the movement to the anthill is below BUILD_RANGE squared. For an
  agent without food and without target that movement is the random step.
\<close>

theorem building_follows_movement:
  assumes "move_step c m (move_search c m a d) d = Inr (c1, m1, a1)"
    and "role a1 = Builder" and "\<not> has_food a1" and "build_draw d < 0.3"
  shows "move c m a d =
           Inr (c1\<lparr>building_progress := building_progress c1 +
                     (if sq_dist (pos a1) ANTHILL_POINT < BUILD_RANGE ^ 2 then BUILD_EFFICIENCY else 0)\<rparr>,
                m1, a1\<lparr>building := True\<rparr>)
         \<and> (\<not> has_food a \<and> target (move_search c m a d) = None \<longrightarrow>
              ax a1 = ax a + real_of_int (choice [-1, 0, 1] (step_x d)) * get_ant_speed c
              \<and> ay a1 = ay a + real_of_int (choice [-1, 0, 1] (step_y d)) * get_ant_speed c)"
proof -
  have "move_build c1 a1 d =
          (c1\<lparr>building_progress := building_progress c1 +
                     (if sq_dist (pos a1) ANTHILL_POINT < BUILD_RANGE ^ 2 then BUILD_EFFICIENCY else 0)\<rparr>,
           a1\<lparr>building := True\<rparr>)"
    using assms(2,3,4) by (simp add: move_build_def build_def Let_def pos_def)
  with assms(1) have mv: "move c m a d =
           Inr (c1\<lparr>building_progress := building_progress c1 +
                     (if sq_dist (pos a1) ANTHILL_POINT < BUILD_RANGE ^ 2 then BUILD_EFFICIENCY else 0)\<rparr>,
                m1, a1\<lparr>building := True\<rparr>)"
    by (simp add: move_def)
  have "ax a1 = ax a + real_of_int (choice [-1, 0, 1] (step_x d)) * get_ant_speed c
        \<and> ay a1 = ay a + real_of_int (choice [-1, 0, 1] (step_y d)) * get_ant_speed c"
    if h: "\<not> has_food a \<and> target (move_search c m a d) = None"
  proof -
    let ?a2 = "move_search c m a d"
    have f: "ax ?a2 = ax a" "ay ?a2 = ay a" "speed ?a2 = get_ant_speed c" "\<not> has_food ?a2"
      using h by (simp_all add: move_search_def update_role_def find_food_def Let_def split: option.splits)
    with h assms(1) show ?thesis
      by (auto simp: move_step_def Let_def)
  qed
  with mv show ?thesis by blast
qed

text \<open>A builder at the anthill steps to \<open>(481, 539)\<close> and builds from there.\<close>

theorem building_follows_movement_witness:
  "move_step Colony_init Manager_init (move_search Colony_init Manager_init builder_at_nest still_draws) still_draws
     = Inr (Colony_init, Manager_init, builder_at_nest\<lparr>ax := 481, ay := 539\<rparr>)
   \<and> role (builder_at_nest\<lparr>ax := 481, ay := 539\<rparr>) = Builder
   \<and> \<not> has_food (builder_at_nest\<lparr>ax := 481, ay := 539\<rparr>)
   \<and> build_draw still_draws < 0.3
   \<and> \<not> has_food builder_at_nest
   \<and> target (move_search Colony_init Manager_init builder_at_nest still_draws) = None
   \<and> move Colony_init Manager_init builder_at_nest still_draws
       = Inr (Colony_init\<lparr>building_progress := BUILD_EFFICIENCY\<rparr>, Manager_init,
              builder_at_nest\<lparr>ax := 481, ay := 539, building := True\<rparr>)"
proof -
  have ms: "move_search Colony_init Manager_init builder_at_nest still_draws = builder_at_nest"
    by (simp add: move_search_def update_role_def Colony_init_def get_ant_speed_def
        builder_at_nest_def still_draws_def params Let_def)
  have h1: "move_step Colony_init Manager_init
              (move_search Colony_init Manager_init builder_at_nest still_draws) still_draws
            = Inr (Colony_init, Manager_init, builder_at_nest\<lparr>ax := 481, ay := 539\<rparr>)"
    by (simp add: ms) (simp add: move_step_def builder_at_nest_def still_draws_def choice_def Let_def)
  have h2: "role (builder_at_nest\<lparr>ax := 481, ay := 539\<rparr>) = Builder"
    and h3: "\<not> has_food (builder_at_nest\<lparr>ax := 481, ay := 539\<rparr>)"
    and h5: "\<not> has_food builder_at_nest"
    by (simp_all add: builder_at_nest_def)
  have h4: "build_draw still_draws < 0.3" by (simp add: still_draws_def)
  have h6: "target (move_search Colony_init Manager_init builder_at_nest still_draws) = None"
    by (simp add: ms) (simp add: builder_at_nest_def)
  have near: "sq_dist (pos (builder_at_nest\<lparr>ax := 481, ay := 539\<rparr>)) ANTHILL_POINT < BUILD_RANGE ^ 2"
    by (simp add: sq_dist_def pos_def builder_at_nest_def params)
  have p0: "building_progress Colony_init = 0" by (simp add: Colony_init_def)
  from building_follows_movement[OF h1 h2 h3 h4] near p0 h1 h2 h3 h4 h5 h6
  show ?thesis by simp
qed

text \<open>
  C2 as stated fails: in a move in which the building draw succeeds, a builder without
  food has taken its random step all the same.
\<close>

theorem builder_moves_and_builds:
  "role builder_at_nest = Builder \<and> \<not> has_food builder_at_nest
   \<and> build_draw still_draws < 0.3
   \<and> move Colony_init Manager_init builder_at_nest still_draws
       = Inr (Colony_init\<lparr>building_progress := BUILD_EFFICIENCY\<rparr>, Manager_init,
              builder_at_nest\<lparr>ax := 481, ay := 539, building := True\<rparr>)
   \<and> pos (builder_at_nest\<lparr>ax := 481, ay := 539, building := True\<rparr>) \<noteq> pos builder_at_nest"
  by (simp add: builder_at_nest_def still_draws_def move_def move_search_def move_step_def
      move_build_def update_role_def find_food_Manager_init build_def choice_def sq_dist_def
      pos_def Colony_init_def get_ant_speed_def params Let_def)

end
